theory Spec2Isabelle
  imports Complex_Main "HOL-Library.Word" "HOL-Library.Sublist"
begin

unbundle bit_operations_syntax

section \<open>The Analyze header of \<^verbatim>\<open>src/nifti/analyze.py\<close>\<close>

text \<open>
  The header object of the source holds a numpy record \<^verbatim>\<open>_header_data\<close>: a buffer of 348
  bytes together with a dtype that fixes one byte order for all of its fields, and a
  dictionary \<^verbatim>\<open>extra_data\<close> for keys outside the binary layout. The model keeps exactly
  that: the bytes, the byte order of the dtype, and a map. A field is read by decoding
  the bytes at its offset under the dtype's order and written by encoding into them, as
  numpy does.

  The byte order codes are \<^verbatim>\<open>'<'\<close> and \<^verbatim>\<open>'>'\<close>. The model fixes the host as little-endian,
  so \<^verbatim>\<open>native_code\<close> is \<^verbatim>\<open>'<'\<close>; on a big-endian host the two constructors change
  roles and nothing else does.
\<close>

subsection \<open>Bytes, byte order and machine integers\<close>

type_synonym byte = "8 word"

datatype endian = Little | Big

definition native_code :: endian where
  "native_code = Little"

definition swapped_code :: endian where
  "swapped_code = Big"

text \<open>Big-endian reading of a byte string as a word, and the bytes of a word.\<close>

definition dec_be :: "byte list \<Rightarrow> 'a::len word" where
  "dec_be bs = foldl (\<lambda>acc b. push_bit 8 acc OR ucast b) 0 bs"

definition enc_be :: "nat \<Rightarrow> 'a::len word \<Rightarrow> byte list" where
  "enc_be n w = map (\<lambda>i. ucast (drop_bit (8 * i) w)) (rev [0..<n])"

definition decode :: "endian \<Rightarrow> byte list \<Rightarrow> 'a::len word" where
  "decode e bs = dec_be (case e of Big \<Rightarrow> bs | Little \<Rightarrow> rev bs)"

definition encode :: "endian \<Rightarrow> nat \<Rightarrow> 'a::len word \<Rightarrow> byte list" where
  "encode e n w = (case e of Big \<Rightarrow> enc_be n w | Little \<Rightarrow> rev (enc_be n w))"

subsection \<open>The binary layout (\<^verbatim>\<open>header_dtype\<close>)\<close>

text \<open>
  A field is a name, an element type and an element count. \<^verbatim>\<open>'i4'\<close>, \<^verbatim>\<open>'i2'\<close> and \<^verbatim>\<open>'f4'\<close>
  are numbers whose bytes depend on the byte order; \<^verbatim>\<open>'S10'\<close> is a string of 10 bytes,
  which no byte order touches. numpy packs the fields without padding, in list order.
\<close>

datatype ftype = I4 | I2 | F4 | S nat

fun fsize :: "ftype \<Rightarrow> nat" where
  "fsize I4 = 4"
| "fsize I2 = 2"
| "fsize F4 = 4"
| "fsize (S n) = n"

type_synonym field = "string \<times> ftype \<times> nat"

definition header_key_dtd :: "field list" where
  "header_key_dtd =
    [(''sizeof_hdr'', I4, 1),
     (''data_type'', S 10, 1),
     (''db_name'', S 18, 1),
     (''extents'', I4, 1),
     (''session_error'', I2, 1),
     (''regular'', S 1, 1),
     (''hkey_un0'', S 1, 1)]"

definition image_dimension_dtd :: "field list" where
  "image_dimension_dtd =
    [(''dim'', I2, 8),
     (''vox_units'', S 4, 1),
     (''cal_units'', S 8, 1),
     (''unused1'', I2, 1),
     (''datatype'', I2, 1),
     (''bitpix'', I2, 1),
     (''dim_un0'', I2, 1),
     (''pixdim'', F4, 8),
     (''vox_offset'', F4, 1),
     (''funused1'', F4, 1),
     (''funused2'', F4, 1),
     (''funused3'', F4, 1),
     (''cal_max'', F4, 1),
     (''cal_min'', F4, 1),
     (''compressed'', I4, 1),
     (''verified'', I4, 1),
     (''glmax'', I4, 1),
     (''glmin'', I4, 1)]"

definition data_history_dtd :: "field list" where
  "data_history_dtd =
    [(''descrip'', S 80, 1),
     (''aux_file'', S 24, 1),
     (''orient'', S 1, 1),
     (''originator'', S 10, 1),
     (''generated'', S 10, 1),
     (''scannum'', S 10, 1),
     (''patient_id'', S 10, 1),
     (''exp_date'', S 10, 1),
     (''exp_time'', S 10, 1),
     (''hist_un0'', S 3, 1),
     (''views'', I4, 1),
     (''vols_added'', I4, 1),
     (''start_field'', I4, 1),
     (''field_skip'', I4, 1),
     (''omax'', I4, 1),
     (''omin'', I4, 1),
     (''smax'', I4, 1),
     (''smin'', I4, 1)]"

definition header_dtype :: "field list" where
  "header_dtype = header_key_dtd @ image_dimension_dtd @ data_history_dtd"

fun dtype_itemsize :: "field list \<Rightarrow> nat" where
  "dtype_itemsize [] = 0"
| "dtype_itemsize ((nm, t, c) # fs) = fsize t * c + dtype_itemsize fs"

text \<open>The offset of a named field: the sizes of the fields before it.\<close>

fun field_offset :: "field list \<Rightarrow> string \<Rightarrow> nat" where
  "field_offset [] nm = 0"
| "field_offset ((n, t, c) # fs) nm =
     (if n = nm then 0 else fsize t * c + field_offset fs nm)"

subsection \<open>The numpy record: a buffer under a byte order\<close>

record ndarray =
  dt_order :: endian
  buffer :: "byte list"

definition get_bytes :: "nat \<Rightarrow> nat \<Rightarrow> byte list \<Rightarrow> byte list" where
  "get_bytes off n bs = take n (drop off bs)"

definition put_bytes :: "nat \<Rightarrow> byte list \<Rightarrow> byte list \<Rightarrow> byte list" where
  "put_bytes off new bs = take off bs @ new @ drop (off + length new) bs"

text \<open>\<^verbatim>\<open>hdr[name][i]\<close> for the element types of the layout, read and written.\<close>

definition fld_i2 :: "ndarray \<Rightarrow> string \<Rightarrow> nat \<Rightarrow> 16 word" where
  "fld_i2 hdr nm i =
     decode (dt_order hdr) (get_bytes (field_offset header_dtype nm + 2 * i) 2 (buffer hdr))"

definition fld_i4 :: "ndarray \<Rightarrow> string \<Rightarrow> nat \<Rightarrow> 32 word" where
  "fld_i4 hdr nm i =
     decode (dt_order hdr) (get_bytes (field_offset header_dtype nm + 4 * i) 4 (buffer hdr))"

definition fld_f4 :: "ndarray \<Rightarrow> string \<Rightarrow> nat \<Rightarrow> 32 word" where
  "fld_f4 hdr nm i =
     decode (dt_order hdr) (get_bytes (field_offset header_dtype nm + 4 * i) 4 (buffer hdr))"

definition set_i2 :: "string \<Rightarrow> nat \<Rightarrow> 16 word \<Rightarrow> ndarray \<Rightarrow> ndarray" where
  "set_i2 nm i v hdr =
     hdr\<lparr>buffer := put_bytes (field_offset header_dtype nm + 2 * i)
                     (encode (dt_order hdr) 2 v) (buffer hdr)\<rparr>"

definition set_i4 :: "string \<Rightarrow> nat \<Rightarrow> 32 word \<Rightarrow> ndarray \<Rightarrow> ndarray" where
  "set_i4 nm i v hdr =
     hdr\<lparr>buffer := put_bytes (field_offset header_dtype nm + 4 * i)
                     (encode (dt_order hdr) 4 v) (buffer hdr)\<rparr>"

definition set_f4 :: "string \<Rightarrow> nat \<Rightarrow> 32 word \<Rightarrow> ndarray \<Rightarrow> ndarray" where
  "set_f4 nm i v hdr =
     hdr\<lparr>buffer := put_bytes (field_offset header_dtype nm + 4 * i)
                     (encode (dt_order hdr) 4 v) (buffer hdr)\<rparr>"

subsection \<open>Guessing the byte order (\<^verbatim>\<open>_guessed_endian\<close>)\<close>

definition guessed_endian :: "ndarray \<Rightarrow> endian" where
  "guessed_endian hdr =
     (let dim0 = sint (fld_i2 hdr ''dim'' 0) in
      if dim0 = 0 then
        (if sint (fld_i4 hdr ''sizeof_hdr'' 0) = 1543569408 then swapped_code
         else native_code)
      else if 1 \<le> dim0 \<and> dim0 \<le> 7 then native_code
      else swapped_code)"

text \<open>
  The record that \<^verbatim>\<open>__init__\<close> builds over the caller's bytes before it knows the order:
  \<^verbatim>\<open>np.ndarray(shape=(), dtype=self._dtype, buffer=binaryblock)\<close>, native.
\<close>

definition native_view :: "byte list \<Rightarrow> ndarray" where
  "native_view bb = \<lparr>dt_order = native_code, buffer = bb\<rparr>"

subsection \<open>Errors\<close>

text \<open>
  An exception is its class and its message. A method that changes the header and may
  raise returns the exception, if any, together with the header as the call leaves it.
\<close>

datatype ekind = HeaderDataError | HeaderTypeError | KeyError | ValueError | IOError
  | OverflowError

datatype error = Error (kind: ekind) (message: string)

subsection \<open>The header object\<close>

record 'v analyze_header =
  header_data :: ndarray
  extra_data :: "string \<rightharpoonup> 'v"

definition binaryblock :: "'v analyze_header \<Rightarrow> byte list" where
  "binaryblock h = buffer (header_data h)"

definition endianness :: "'v analyze_header \<Rightarrow> endian" where
  "endianness h =
     (if dt_order (header_data h) = native_code then native_code else swapped_code)"

subsection \<open>Data type codes (\<^verbatim>\<open>_dtdefs\<close>, \<^verbatim>\<open>data_type_codes\<close>)\<close>

text \<open>
  The third column of \<^verbatim>\<open>_dtdefs\<close> is a numpy scalar type or, for RGB, a structured dtype
  of three \<^verbatim>\<open>u1\<close> fields. \<^verbatim>\<open>np.dtype\<close> of either is a dtype with a scalar type (\<^verbatim>\<open>np.void\<close>
  for every structured dtype), its fields, an item size and a byte order (none for
  items of at most one byte and for a structure of such).
\<close>

datatype sctype = Void | UInt8 | Int16 | Int32 | Float32 | Complex64 | Float64

datatype typespec = Scalar sctype | Struct "(string \<times> sctype) list"

fun sc_itemsize :: "sctype \<Rightarrow> nat" where
  "sc_itemsize Void = 0"
| "sc_itemsize UInt8 = 1"
| "sc_itemsize Int16 = 2"
| "sc_itemsize Int32 = 4"
| "sc_itemsize Float32 = 4"
| "sc_itemsize Complex64 = 8"
| "sc_itemsize Float64 = 8"

record dtype =
  dt_type :: sctype
  dt_fields :: "(string \<times> sctype) list"
  dt_itemsize :: nat
  dt_byteorder :: "endian option"

fun np_dtype :: "typespec \<Rightarrow> dtype" where
  "np_dtype (Scalar t) =
     \<lparr>dt_type = t, dt_fields = [], dt_itemsize = sc_itemsize t,
      dt_byteorder = (if sc_itemsize t \<le> 1 then None else Some native_code)\<rparr>"
| "np_dtype (Struct fs) =
     \<lparr>dt_type = Void, dt_fields = fs, dt_itemsize = sum_list (map (sc_itemsize \<circ> snd) fs),
      dt_byteorder =
        (if list_all (\<lambda>f. sc_itemsize (snd f) \<le> 1) fs then None else Some native_code)\<rparr>"

definition newbyteorder :: "endian \<Rightarrow> dtype \<Rightarrow> dtype" where
  "newbyteorder e d =
     d\<lparr>dt_byteorder := (case dt_byteorder d of None \<Rightarrow> None | Some _ \<Rightarrow> Some e)\<rparr>"

definition RGB :: typespec where
  "RGB = Struct [(''R'', UInt8), (''G'', UInt8), (''B'', UInt8)]"

definition dtdefs :: "(int \<times> string \<times> typespec) list" where
  "dtdefs =
    [(0, ''none'', Scalar Void),
     (1, ''binary'', Scalar Void),
     (2, ''uint8'', Scalar UInt8),
     (4, ''int16'', Scalar Int16),
     (8, ''int32'', Scalar Int32),
     (16, ''float32'', Scalar Float32),
     (32, ''complex64'', Scalar Complex64),
     (64, ''float64'', Scalar Float64),
     (128, ''RGB'', RGB),
     (255, ''all'', Scalar Void)]"

text \<open>
  Modelled from the spec: \<^verbatim>\<open>make_dt_codes\<close> and the recoder it returns live in
  \<^verbatim>\<open>volumeutils\<close>, which is not among the sources. The spec (4.3): the registry is built
  once from the table of (code, label, native representation) triples; lookup accepts a
  code, a label or a native representation and returns the canonical code; an unmatched
  key fails with a "not found" error. Three rows share \<^verbatim>\<open>np.void\<close>; a dictionary built row
  by row keeps the last of them, and so does the model. The \<^verbatim>\<open>dtype\<close> column maps a code
  to \<^verbatim>\<open>np.dtype\<close> of its row's representation.
\<close>

datatype dt_key = KCode int | KLabel string | KType typespec

fun row_matches :: "dt_key \<Rightarrow> int \<times> string \<times> typespec \<Rightarrow> bool" where
  "row_matches (KCode c) (code, label, ty) = (c = code)"
| "row_matches (KLabel l) (code, label, ty) = (l = label)"
| "row_matches (KType t) (code, label, ty) = (t = ty)"

definition code_of_key :: "dt_key \<Rightarrow> int option" where
  "code_of_key k = map_option fst (find (row_matches k) (rev dtdefs))"

definition dtype_of_code :: "int \<Rightarrow> dtype option" where
  "dtype_of_code c =
     map_option (\<lambda>(code, label, ty). np_dtype ty) (find (\<lambda>(code, label, ty). code = c) dtdefs)"

subsection \<open>Python's \<^verbatim>\<open>%s\<close> of the keys\<close>

fun show_nat :: "nat \<Rightarrow> string" where
  "show_nat n =
     (if n < 10 then [''0123456789'' ! n]
      else show_nat (n div 10) @ [''0123456789'' ! (n mod 10)])"

declare show_nat.simps [simp del]

definition show_int :: "int \<Rightarrow> string" where
  "show_int i = (if i < 0 then ''-'' @ show_nat (nat (- i)) else show_nat (nat i))"

fun sctype_name :: "sctype \<Rightarrow> string" where
  "sctype_name Void = ''void''"
| "sctype_name UInt8 = ''uint8''"
| "sctype_name Int16 = ''int16''"
| "sctype_name Int32 = ''int32''"
| "sctype_name Float32 = ''float32''"
| "sctype_name Complex64 = ''complex64''"
| "sctype_name Float64 = ''float64''"

fun sctype_code :: "sctype \<Rightarrow> string" where
  "sctype_code Void = ''|V0''"
| "sctype_code UInt8 = ''|u1''"
| "sctype_code Int16 = ''<i2''"
| "sctype_code Int32 = ''<i4''"
| "sctype_code Float32 = ''<f4''"
| "sctype_code Complex64 = ''<c8''"
| "sctype_code Float64 = ''<f8''"

definition sq :: string where
  "sq = [CHR 0x27]"

definition dq :: string where
  "dq = [CHR 0x22]"

fun join :: "string \<Rightarrow> string list \<Rightarrow> string" where
  "join sep [] = []"
| "join sep [x] = x"
| "join sep (x # y # ys) = x @ sep @ join sep (y # ys)"

fun key_str :: "dt_key \<Rightarrow> string" where
  "key_str (KCode c) = show_int c"
| "key_str (KLabel l) = l"
| "key_str (KType (Scalar t)) = ''<type '' @ sq @ ''numpy.'' @ sctype_name t @ sq @ ''>''"
| "key_str (KType (Struct fs)) =
     ''['' @ join '', '' (map (\<lambda>(n, t). ''('' @ sq @ n @ sq @ '', '' @ sq @ sctype_code t @ sq @ '')'') fs)
       @ '']''"

subsection \<open>\<^verbatim>\<open>get_data_dtype\<close> and \<^verbatim>\<open>set_data_dtype\<close>\<close>

definition get_data_dtype :: "'v analyze_header \<Rightarrow> error + dtype" where
  "get_data_dtype h =
     (let code = sint (fld_i2 (header_data h) ''datatype'' 0) in
      case dtype_of_code code of
        None \<Rightarrow> Inl (Error KeyError (show_int code))
      | Some dt \<Rightarrow> Inr (newbyteorder (endianness h) dt))"

definition set_data_dtype :: "dt_key \<Rightarrow> 'v analyze_header \<Rightarrow> error option \<times> 'v analyze_header" where
  "set_data_dtype datatype h =
     (case code_of_key datatype of
        None \<Rightarrow>
          (Some (Error HeaderDataError
             (''data dtype '' @ dq @ key_str datatype @ dq @ '' not recognized'')), h)
      | Some code \<Rightarrow>
          (case dtype_of_code code of
             None \<Rightarrow> (Some (Error KeyError (show_int code)), h)
           | Some dt \<Rightarrow>
               if dt_type dt = Void \<and> dt_fields dt = [] then
                 (Some (Error HeaderDataError
                    (''data dtype '' @ dq @ key_str datatype @ dq
                       @ '' known but not supported'')), h)
               else
                 (None,
                  h\<lparr>header_data :=
                      set_i2 ''bitpix'' 0 (word_of_int (int (dt_itemsize dt * 8)))
                        (set_i2 ''datatype'' 0 (word_of_int code) (header_data h))\<rparr>)))"

subsection \<open>The empty header (\<^verbatim>\<open>_empty_headerdata\<close>)\<close>

text \<open>
  Assigning a scalar to an array field writes every element. The single-precision bit
  pattern of 1.0 is \<^verbatim>\<open>0x3F800000\<close>.
\<close>

definition fill_i2 :: "string \<Rightarrow> nat \<Rightarrow> 16 word \<Rightarrow> ndarray \<Rightarrow> ndarray" where
  "fill_i2 nm n v hdr = foldl (\<lambda>h i. set_i2 nm i v h) hdr [0..<n]"

definition fill_f4 :: "string \<Rightarrow> nat \<Rightarrow> 32 word \<Rightarrow> ndarray \<Rightarrow> ndarray" where
  "fill_f4 nm n v hdr = foldl (\<lambda>h i. set_f4 nm i v h) hdr [0..<n]"

definition f32_one :: "32 word" where
  "f32_one = 0x3F800000"

definition np_zeros :: "endian \<Rightarrow> ndarray" where
  "np_zeros e = \<lparr>dt_order = e, buffer = replicate (dtype_itemsize header_dtype) 0\<rparr>"

definition empty_headerdata :: "endian option \<Rightarrow> ndarray" where
  "empty_headerdata endi =
     (let dt = (case endi of None \<Rightarrow> native_code | Some e \<Rightarrow> e);
          hdr_data = np_zeros dt;
          hdr_data = set_i4 ''sizeof_hdr'' 0 348 hdr_data;
          hdr_data = fill_i2 ''dim'' 8 1 hdr_data;
          hdr_data = set_i2 ''dim'' 0 0 hdr_data;
          hdr_data = fill_f4 ''pixdim'' 8 f32_one hdr_data;
          hdr_data = set_i2 ''datatype'' 0 16 hdr_data;
          hdr_data = set_i2 ''bitpix'' 0 32 hdr_data
      in hdr_data)"

subsection \<open>Single-precision values\<close>

text \<open>
  A \<^verbatim>\<open>'f4'\<close> field holds 32 bits. The checks compare such a value with 0 and take its
  absolute value; both are decided by the IEEE 754 reading of the bits: sign, eight
  exponent bits, 23 fraction bits. A finite value is a rational number (the sign of a
  zero is not kept, and no comparison below depends on it).
\<close>

datatype fval = Finite rat | PInf | NInf | NaN

definition f32_val :: "32 word \<Rightarrow> fval" where
  "f32_val w =
     (let n = unat w;
          s = n div 2 ^ 31;
          e = (n div 2 ^ 23) mod 256;
          m = n mod 2 ^ 23;
          mag = (if e = 0 then of_nat m / 2 ^ 149
                 else of_nat ((2 ^ 23 + m) * 2 ^ e) / 2 ^ 150)
      in if e = 255 then (if m = 0 then (if s = 1 then NInf else PInf) else NaN)
         else Finite (if s = 1 then - mag else mag))"

fun fval_lt0 :: "fval \<Rightarrow> bool" where
  "fval_lt0 (Finite r) = (r < 0)"
| "fval_lt0 NInf = True"
| "fval_lt0 PInf = False"
| "fval_lt0 NaN = False"

definition f32_lt0 :: "32 word \<Rightarrow> bool" where
  "f32_lt0 w = fval_lt0 (f32_val w)"

definition f32_abs :: "32 word \<Rightarrow> 32 word" where
  "f32_abs w = w AND 0x7FFFFFFF"

subsection \<open>Reports and the battery runner\<close>

text \<open>
  Modelled from the spec: the classes \<^verbatim>\<open>Report\<close> and \<^verbatim>\<open>BatteryRunner\<close> live in
  \<^verbatim>\<open>batteryrunners\<close>, which is not among the sources. The spec (3, 4.2): a report is the
  outcome of one check, with a severity level (0 when nothing is wrong), a problem
  description and an optional fix description; the source also hands it the error
  class to raise and, in one check, sets an attribute \<^verbatim>\<open>fix_problem_msg\<close>. The battery
  holds an ordered sequence of checks, each taking the header and a repair flag.
  \<^verbatim>\<open>check_fix\<close> runs every check in order with repair enabled, on the header as the
  checks before left it. \<^verbatim>\<open>check_only\<close> runs every check with repair disabled and
  returns all reports with nonzero severity.
\<close>

record report =
  rep_error :: "ekind option"
  level :: nat
  problem_msg :: string
  fix_msg :: string
  fix_problem_msg :: string

definition Report :: "ekind option \<Rightarrow> report" where
  "Report err =
     \<lparr>rep_error = err, level = 0, problem_msg = [], fix_msg = [], fix_problem_msg = []\<rparr>"

fun run_checks :: "('h \<Rightarrow> bool \<Rightarrow> 'h \<times> report) list \<Rightarrow> bool \<Rightarrow> 'h \<Rightarrow> 'h \<times> report list" where
  "run_checks [] fix obj = (obj, [])"
| "run_checks (c # cs) fix obj =
     (case c obj fix of (obj1, r) \<Rightarrow>
        (case run_checks cs fix obj1 of (obj2, rs) \<Rightarrow> (obj2, r # rs)))"

definition battery_check_fix :: "('h \<Rightarrow> bool \<Rightarrow> 'h \<times> report) list \<Rightarrow> 'h \<Rightarrow> 'h \<times> report list" where
  "battery_check_fix checks obj = run_checks checks True obj"

definition battery_check_only :: "('h \<Rightarrow> bool \<Rightarrow> 'h \<times> report) list \<Rightarrow> 'h \<Rightarrow> 'h \<times> report list" where
  "battery_check_only checks obj =
     (case run_checks checks False obj of (obj1, rs) \<Rightarrow> (obj1, filter (\<lambda>r. level r \<noteq> 0) rs))"

subsection \<open>The four checks\<close>

definition chk_sizeof_hdr :: "'v analyze_header \<Rightarrow> bool \<Rightarrow> 'v analyze_header \<times> report" where
  "chk_sizeof_hdr hdr fix =
     (let ret = Report (Some HeaderDataError) in
      if sint (fld_i4 (header_data hdr) ''sizeof_hdr'' 0) = 348 then (hdr, ret)
      else
        let ret = ret\<lparr>problem_msg := ''sizeof_hdr should be 348''\<rparr> in
        if fix then
          (hdr\<lparr>header_data := set_i4 ''sizeof_hdr'' 0 348 (header_data hdr)\<rparr>,
           ret\<lparr>fix_msg := ''set sizeof_hdr to 348''\<rparr>)
        else (hdr, ret\<lparr>level := 30\<rparr>))"

definition chk_datatype :: "'v analyze_header \<Rightarrow> bool \<Rightarrow> 'v analyze_header \<times> report" where
  "chk_datatype hdr fix =
     (let ret = Report (Some HeaderDataError);
          code = sint (fld_i2 (header_data hdr) ''datatype'' 0);
          ret = (case dtype_of_code code of
                   None \<Rightarrow> ret\<lparr>level := 40, problem_msg := ''data code not recognized''\<rparr>
                 | Some dtype \<Rightarrow>
                     if dt_type dtype = Void
                     then ret\<lparr>level := 40, problem_msg := ''data code not supported''\<rparr>
                     else ret);
          ret = (if fix then ret\<lparr>fix_problem_msg := ''not attempting fix''\<rparr> else ret)
      in (hdr, ret))"

definition chk_bitpix :: "'v analyze_header \<Rightarrow> bool \<Rightarrow> 'v analyze_header \<times> report" where
  "chk_bitpix hdr fix =
     (let ret = Report (Some HeaderDataError);
          code = sint (fld_i2 (header_data hdr) ''datatype'' 0)
      in case dtype_of_code code of
           None \<Rightarrow>
             (let ret = ret\<lparr>level := 10, problem_msg := ''no valid datatype to fix bitpix''\<rparr>;
                  ret = (if fix then ret\<lparr>fix_msg := ''no way to fix bitpix''\<rparr> else ret)
              in (hdr, ret))
         | Some dt \<Rightarrow>
             (let bitpix = dt_itemsize dt * 8;
                  ret = Report None
              in if int bitpix = sint (fld_i2 (header_data hdr) ''bitpix'' 0) then (hdr, ret)
                 else
                   let ret = ret\<lparr>problem_msg := ''bitpix does not match datatype''\<rparr> in
                   if fix then
                     (hdr\<lparr>header_data :=
                           set_i2 ''bitpix'' 0 (word_of_int (int bitpix)) (header_data hdr)\<rparr>,
                      ret\<lparr>fix_msg := ''setting bitpix to match datatype''\<rparr>)
                   else (hdr, ret\<lparr>level := 10\<rparr>)))"

definition chk_pixdims :: "'v analyze_header \<Rightarrow> bool \<Rightarrow> 'v analyze_header \<times> report" where
  "chk_pixdims hdr fix =
     (let ret = Report (Some HeaderDataError) in
      if \<not> list_ex (\<lambda>i. f32_lt0 (fld_f4 (header_data hdr) ''pixdim'' i)) [1, 2, 3]
      then (hdr, ret)
      else
        let ret = ret\<lparr>problem_msg := ''pixdim[1,2,3] should be positive''\<rparr> in
        if fix then
          (hdr\<lparr>header_data :=
                foldl (\<lambda>d i. set_f4 ''pixdim'' i
                                (f32_abs (fld_f4 (header_data hdr) ''pixdim'' i)) d)
                  (header_data hdr) [1, 2, 3]\<rparr>,
           ret\<lparr>fix_msg := ''setting to abs of pixdim values''\<rparr>)
        else (hdr, ret\<lparr>level := 40\<rparr>))"

definition get_checks :: "('v analyze_header \<Rightarrow> bool \<Rightarrow> 'v analyze_header \<times> report) list" where
  "get_checks = [chk_sizeof_hdr, chk_datatype, chk_bitpix, chk_pixdims]"

subsection \<open>\<^verbatim>\<open>check_fix\<close> of the header\<close>

text \<open>
  The method runs the battery in repair mode and then calls \<^verbatim>\<open>log_raise\<close> on each
  report in turn. Modelled from the spec: \<^verbatim>\<open>Report.log_raise\<close>, the logger and the
  configured error level are not among the sources. The spec (4.2): for every report
  carrying nonzero severity an external logging and threshold policy is invoked, which
  may abort by raising. The policy is a parameter here: it maps a report to the
  exception it raises, if any. The header keeps the repairs when the policy raises.
\<close>

fun log_raise_all :: "(report \<Rightarrow> error option) \<Rightarrow> report list \<Rightarrow> error option" where
  "log_raise_all policy [] = None"
| "log_raise_all policy (r # rs) =
     (case (if level r \<noteq> 0 then policy r else None) of
        Some e \<Rightarrow> Some e
      | None \<Rightarrow> log_raise_all policy rs)"

definition check_fix :: "(report \<Rightarrow> error option) \<Rightarrow> 'v analyze_header \<Rightarrow> error option \<times> 'v analyze_header" where
  "check_fix policy self =
     (case battery_check_fix get_checks self of
        (self1, reports) \<Rightarrow> (log_raise_all policy reports, self1))"

subsection \<open>Construction (\<^verbatim>\<open>__init__\<close>)\<close>

text \<open>
  \<^verbatim>\<open>endian_codes\<close> maps the spellings of a byte order to its code; the model's callers
  pass the code. The block is copied, so the header owns its bytes.
\<close>

definition AnalyzeHeader ::
  "byte list option \<Rightarrow> endian option \<Rightarrow> bool \<Rightarrow> (string \<rightharpoonup> 'v) option
     \<Rightarrow> (report \<Rightarrow> error option) \<Rightarrow> error + 'v analyze_header" where
  "AnalyzeHeader bblock endi check extra policy =
     (let extra_data = (case extra of None \<Rightarrow> Map.empty | Some m \<Rightarrow> m) in
      case bblock of
        None \<Rightarrow> Inr \<lparr>header_data = empty_headerdata endi, extra_data = extra_data\<rparr>
      | Some bb \<Rightarrow>
          if length bb \<noteq> dtype_itemsize header_dtype
          then Inl (Error HeaderDataError ''Binary block is wrong size'')
          else
            let hdr = native_view bb;
                e = (case endi of None \<Rightarrow> guessed_endian hdr | Some e \<Rightarrow> e);
                hdr = (if e \<noteq> native_code then \<lparr>dt_order = e, buffer = bb\<rparr> else hdr);
                self = \<lparr>header_data = hdr, extra_data = extra_data\<rparr>
            in if check then
                 (case check_fix policy self of
                    (Some err, self1) \<Rightarrow> Inl err
                  | (None, self1) \<Rightarrow> Inr self1)
               else Inr self)"

subsection \<open>Byte swapping and equality\<close>

text \<open>
  \<^verbatim>\<open>ndarray.byteswap()\<close> reverses the bytes of every number and leaves strings alone; the
  dtype stays. \<^verbatim>\<open>tostring()\<close> is the buffer.
\<close>

fun swap_elems :: "nat \<Rightarrow> nat \<Rightarrow> byte list \<Rightarrow> byte list" where
  "swap_elems sz 0 bs = []"
| "swap_elems sz (Suc c) bs = rev (take sz bs) @ swap_elems sz c (drop sz bs)"

definition swap_field :: "ftype \<Rightarrow> nat \<Rightarrow> byte list \<Rightarrow> byte list" where
  "swap_field t c bs =
     (case t of
        S n \<Rightarrow> take (n * c) bs
      | _ \<Rightarrow> swap_elems (fsize t) c (take (fsize t * c) bs))"

fun byteswap_fields :: "field list \<Rightarrow> byte list \<Rightarrow> byte list" where
  "byteswap_fields [] bs = []"
| "byteswap_fields ((nm, t, c) # fs) bs =
     swap_field t c bs @ byteswap_fields fs (drop (fsize t * c) bs)"

definition byteswap :: "ndarray \<Rightarrow> ndarray" where
  "byteswap hdr = hdr\<lparr>buffer := byteswap_fields header_dtype (buffer hdr)\<rparr>"

definition header_eq :: "'v analyze_header \<Rightarrow> 'v analyze_header \<Rightarrow> bool" where
  "header_eq self other =
     (let this_end = endianness self;
          this_bb = binaryblock self
      in if this_end = endianness other
         then this_bb = binaryblock other \<and> extra_data self = extra_data other
         else
           let other_bb = buffer (byteswap (header_data other))
           in this_bb = other_bb \<and> extra_data self = extra_data other)"

definition as_byteswapped ::
  "endian \<Rightarrow> (report \<Rightarrow> error option) \<Rightarrow> 'v analyze_header \<Rightarrow> error + 'v analyze_header" where
  "as_byteswapped endi policy self =
     (if endi = endianness self
      then AnalyzeHeader (Some (binaryblock self)) (Some (endianness self)) False None policy
      else
        let hdr_data = byteswap (header_data self)
        in AnalyzeHeader (Some (buffer hdr_data)) (Some endi) False None policy)"

text \<open>The header that \<^verbatim>\<open>AnalyzeHeader(endianness=e)\<close> returns: no block, no extra data.\<close>

definition empty_header :: "endian option \<Rightarrow> 'v analyze_header" where
  "empty_header e = \<lparr>header_data = empty_headerdata e, extra_data = Map.empty\<rparr>"

subsection \<open>The rank\<close>

text \<open>The declared number of dimensions, \<^verbatim>\<open>int(hdr['dim'][0])\<close>.\<close>

definition hdr_rank :: "'v analyze_header \<Rightarrow> int" where
  "hdr_rank h = sint (fld_i2 (header_data h) ''dim'' 0)"

subsection \<open>Shape and zooms\<close>

text \<open>
  Python's \<^verbatim>\<open>xs[a:b]\<close>: a negative bound counts from the end, and both are clipped to the
  list.
\<close>

definition py_slice :: "int \<Rightarrow> int \<Rightarrow> 'a list \<Rightarrow> 'a list" where
  "py_slice a b xs =
     (let n = int (length xs);
          lo = (if a < 0 then max 0 (a + n) else min a n);
          hi = (if b < 0 then max 0 (b + n) else min b n)
      in take (nat (hi - lo)) (drop (nat lo) xs))"

definition get_data_shape :: "'v analyze_header \<Rightarrow> int list" where
  "get_data_shape h =
     (let dims = map (fld_i2 (header_data h) ''dim'') [0..<8];
          ndims = sint (dims ! 0)
      in if ndims = 0 then [0]
         else map sint (py_slice 1 (ndims + 1) dims))"

text \<open>
  \<^verbatim>\<open>set_data_shape\<close> writes 1 to all eight elements, then the number of dimensions to the
  first, then the shape to the elements after it. An integer stored in an \<^verbatim>\<open>'i2'\<close> element
  keeps its low 16 bits. The slice \<^verbatim>\<open>dims[1:ndims+1]\<close> has at most seven elements, so
  numpy refuses a longer shape with a \<^verbatim>\<open>ValueError\<close>; the two writes before it stay.
\<close>

definition set_data_shape :: "int list \<Rightarrow> 'v analyze_header \<Rightarrow> error option \<times> 'v analyze_header" where
  "set_data_shape shape h =
     (let ndims = length shape;
          dims = fill_i2 ''dim'' 8 1 (header_data h);
          dims = set_i2 ''dim'' 0 (word_of_int (int ndims)) dims
      in if 7 < ndims then
           (Some (Error ValueError ''could not broadcast input array''),
            h\<lparr>header_data := dims\<rparr>)
         else
           (None,
            h\<lparr>header_data :=
                foldl (\<lambda>d (i, v). set_i2 ''dim'' i (word_of_int v) d) dims
                  (enumerate 1 shape)\<rparr>))"

definition get_zooms :: "'v analyze_header \<Rightarrow> 32 word list" where
  "get_zooms h =
     (let hdr = header_data h;
          ndim = sint (fld_i2 hdr ''dim'' 0)
      in if ndim = 0 then []
         else py_slice 1 (ndim + 1) (map (fld_f4 hdr ''pixdim'') [0..<8]))"

text \<open>
  The zooms given to \<^verbatim>\<open>set_zooms\<close> are taken as single-precision values already, the
  values that the assignment to the \<^verbatim>\<open>'f4'\<close> elements stores.
\<close>

definition set_zooms :: "32 word list \<Rightarrow> 'v analyze_header \<Rightarrow> error option \<times> 'v analyze_header" where
  "set_zooms zooms h =
     (let hdr = header_data h;
          ndim = sint (fld_i2 hdr ''dim'' 0)
      in if int (length zooms) \<noteq> ndim then
           (Some (Error HeaderDataError
              (''Expecting '' @ show_int ndim @ '' zoom values for ndim '' @ show_int ndim)), h)
         else if list_ex f32_lt0 zooms then
           (Some (Error HeaderDataError ''zooms must be positive''), h)
         else if 7 < length zooms then
           (Some (Error ValueError ''could not broadcast input array''), h)
         else
           (None,
            h\<lparr>header_data :=
                foldl (\<lambda>d (i, z). set_f4 ''pixdim'' i z d) hdr (enumerate 1 zooms)\<rparr>))"

subsection \<open>The base affine\<close>

text \<open>
  The affine is computed in double precision from three single-precision zooms and
  three 16-bit extents. \<^verbatim>\<open>hdr['dim'][1:4] - 1\<close> is an \<^verbatim>\<open>int16\<close> array, so the subtraction
  wraps at 16 bits. Halving such an integer and multiplying by a single-precision value
  is exact in double precision (at most 16 and 24 significant bits, and the exponents
  stay in range), as is the change of sign, so finite values are computed as rational
  numbers without rounding; infinities and NaN follow IEEE 754.
\<close>

fun fneg :: "fval \<Rightarrow> fval" where
  "fneg (Finite r) = Finite (- r)"
| "fneg PInf = NInf"
| "fneg NInf = PInf"
| "fneg NaN = NaN"

fun fmul :: "fval \<Rightarrow> fval \<Rightarrow> fval" where
  "fmul (Finite a) (Finite b) = Finite (a * b)"
| "fmul NaN y = NaN"
| "fmul x NaN = NaN"
| "fmul (Finite a) PInf = (if a = 0 then NaN else if 0 < a then PInf else NInf)"
| "fmul (Finite a) NInf = (if a = 0 then NaN else if 0 < a then NInf else PInf)"
| "fmul PInf (Finite b) = (if b = 0 then NaN else if 0 < b then PInf else NInf)"
| "fmul NInf (Finite b) = (if b = 0 then NaN else if 0 < b then NInf else PInf)"
| "fmul PInf PInf = PInf"
| "fmul PInf NInf = NInf"
| "fmul NInf PInf = NInf"
| "fmul NInf NInf = PInf"

definition default_x_flip :: bool where
  "default_x_flip = True"

definition get_base_affine :: "'v analyze_header \<Rightarrow> fval list list" where
  "get_base_affine h =
     (let hdr = header_data h;
          zooms = map (\<lambda>i. f32_val (fld_f4 hdr ''pixdim'' i)) [1, 2, 3];
          zooms = (if default_x_flip then zooms[0 := fmul (zooms ! 0) (Finite (- 1))]
                   else zooms);
          origin = map (\<lambda>i. Finite (of_int (sint (fld_i2 hdr ''dim'' i - 1)) / 2)) [1, 2, 3];
          trans = map (\<lambda>i. fmul (fneg (origin ! i)) (zooms ! i)) [0, 1, 2]
      in map (\<lambda>i. map (\<lambda>j. if j = 3 then trans ! i
                             else if j = i then zooms ! i
                             else Finite 0) [0, 1, 2, 3]) [0, 1, 2]
         @ [[Finite 0, Finite 0, Finite 0, Finite 1]])"

subsection \<open>Writing data\<close>

text \<open>
  The array to write has a shape and an element type; the file object can seek, which
  may raise \<^verbatim>\<open>IOError\<close> with a message, and tell its position. \<^verbatim>\<open>array_to_file\<close> and
  \<^verbatim>\<open>can_cast\<close> come from \<^verbatim>\<open>volumeutils\<close>, which is not among the sources; they are
  parameters, as is the file object's behaviour. \<^verbatim>\<open>int(x)\<close> of a float truncates towards
  zero and raises on NaN and on an infinity.
\<close>

record 'd array =
  arr_shape :: "int list"
  arr_type :: sctype
  arr_data :: 'd

record 'f file_ops =
  seek :: "int \<Rightarrow> 'f \<Rightarrow> string option \<times> 'f"
  tell :: "'f \<Rightarrow> int"

fun py_int :: "fval \<Rightarrow> error + int" where
  "py_int (Finite r) = Inr (if 0 \<le> r then \<lfloor>r\<rfloor> else \<lceil>r\<rceil>)"
| "py_int NaN = Inl (Error ValueError ''cannot convert float NaN to integer'')"
| "py_int PInf = Inl (Error OverflowError ''cannot convert float infinity to integer'')"
| "py_int NInf = Inl (Error OverflowError ''cannot convert float infinity to integer'')"

definition prepare_write ::
  "'f file_ops \<Rightarrow> 'v analyze_header \<Rightarrow> 'd array \<Rightarrow> 'f \<Rightarrow> error option \<times> 'f" where
  "prepare_write ops self data fileobj =
     (let shape = get_data_shape self in
      if arr_shape data \<noteq> shape then
        (Some (Error HeaderDataError
           (''Data should be shape ('' @ join '', '' (map show_int shape) @ '')'')), fileobj)
      else
        case py_int (f32_val (fld_f4 (header_data self) ''vox_offset'' 0)) of
          Inl err \<Rightarrow> (Some err, fileobj)
        | Inr offset \<Rightarrow>
            (case seek ops offset fileobj of
               (None, f1) \<Rightarrow> (None, f1)
             | (Some msg, f1) \<Rightarrow>
                 if tell ops f1 \<noteq> offset then (Some (Error IOError msg), f1)
                 else (None, f1)))"

definition write_raw_data ::
  "'f file_ops \<Rightarrow> ('d array \<Rightarrow> 'f \<Rightarrow> dtype \<Rightarrow> error option \<times> 'f)
     \<Rightarrow> 'v analyze_header \<Rightarrow> 'd array \<Rightarrow> 'f \<Rightarrow> error option \<times> 'f" where
  "write_raw_data ops array_to_file self data fileobj =
     (case prepare_write ops self data fileobj of
        (Some err, f1) \<Rightarrow> (Some err, f1)
      | (None, f1) \<Rightarrow>
          (case get_data_dtype self of
             Inl err \<Rightarrow> (Some err, f1)
           | Inr out_dtype \<Rightarrow> array_to_file data f1 out_dtype))"

definition has_data_slope :: bool where
  "has_data_slope = False"

definition has_data_intercept :: bool where
  "has_data_intercept = False"

definition cast_check ::
  "(sctype \<Rightarrow> sctype \<Rightarrow> bool \<Rightarrow> bool \<Rightarrow> bool) \<Rightarrow> 'v analyze_header \<Rightarrow> sctype \<Rightarrow> error option" where
  "cast_check can_cast self nptype =
     (case get_data_dtype self of
        Inl err \<Rightarrow> Some err
      | Inr out_dtype \<Rightarrow>
          if can_cast nptype (dt_type out_dtype) has_data_intercept has_data_slope then None
          else Some (Error HeaderTypeError
                 (''Cannot cast data to header dtype without''
                    @ '' large potential loss in precision'')))"

definition write_data ::
  "'f file_ops \<Rightarrow> ('d array \<Rightarrow> 'f \<Rightarrow> dtype \<Rightarrow> error option \<times> 'f)
     \<Rightarrow> (sctype \<Rightarrow> sctype \<Rightarrow> bool \<Rightarrow> bool \<Rightarrow> bool)
     \<Rightarrow> 'v analyze_header \<Rightarrow> 'd array \<Rightarrow> 'f \<Rightarrow> error option \<times> 'f" where
  "write_data ops array_to_file can_cast self data fileobj =
     (case cast_check can_cast self (arr_type data) of
        Some err \<Rightarrow> (Some err, fileobj)
      | None \<Rightarrow> write_raw_data ops array_to_file self data fileobj)"

section \<open>Layout facts\<close>

lemma header_dtype_itemsize: "dtype_itemsize header_dtype = 348"
  by (simp add: header_dtype_def header_key_dtd_def image_dimension_dtd_def
      data_history_dtd_def)

lemma off_sizeof_hdr: "field_offset header_dtype ''sizeof_hdr'' = 0"
  by (simp add: header_dtype_def header_key_dtd_def)

lemma off_dim: "field_offset header_dtype ''dim'' = 40"
  by (simp add: header_dtype_def header_key_dtd_def image_dimension_dtd_def)

lemma off_datatype: "field_offset header_dtype ''datatype'' = 70"
  by (simp add: header_dtype_def header_key_dtd_def image_dimension_dtd_def)

lemma off_bitpix: "field_offset header_dtype ''bitpix'' = 72"
  by (simp add: header_dtype_def header_key_dtd_def image_dimension_dtd_def)

lemma off_pixdim: "field_offset header_dtype ''pixdim'' = 76"
  by (simp add: header_dtype_def header_key_dtd_def image_dimension_dtd_def)

lemma off_vox_offset: "field_offset header_dtype ''vox_offset'' = 108"
  by (simp add: header_dtype_def header_key_dtd_def image_dimension_dtd_def)

lemmas offs = off_sizeof_hdr off_dim off_datatype off_bitpix off_pixdim off_vox_offset

section \<open>Reading and writing bytes\<close>

lemma length_enc_be: "length (enc_be n w) = n"
  by (simp add: enc_be_def)

lemma length_encode: "length (encode e n w) = n"
  by (cases e) (simp_all add: encode_def length_enc_be)

lemma dec_enc_be2: "dec_be (enc_be 2 (w :: 16 word)) = w"
  apply (simp add: dec_be_def enc_be_def upt_rec)
  apply (rule bit_word_eqI)
  apply (auto simp add: bit_simps)
  done

lemma dec_enc_be4: "dec_be (enc_be 4 (w :: 32 word)) = w"
proof (rule bit_word_eqI)
  fix n :: nat
  assume "n < LENGTH(32)"
  then have n: "n < 32" by simp
  consider "n < 8" | "8 \<le> n" "n < 16" | "16 \<le> n" "n < 24" | "24 \<le> n"
    by linarith
  then show "bit (dec_be (enc_be 4 w) :: 32 word) n = bit w n"
  proof cases
    case 1 then show ?thesis using n
      by (simp add: dec_be_def enc_be_def upt_rec bit_simps)
  next
    case 2 then show ?thesis using n
      by (auto simp add: dec_be_def enc_be_def upt_rec bit_simps)
  next
    case 3 then show ?thesis using n
      by (auto simp add: dec_be_def enc_be_def upt_rec bit_simps)
  next
    case 4 then show ?thesis using n
      by (auto simp add: dec_be_def enc_be_def upt_rec bit_simps)
  qed
qed

lemma decode_encode2: "decode e (encode e 2 (w :: 16 word)) = w"
  by (cases e) (simp_all add: decode_def encode_def dec_enc_be2)

lemma decode_encode4: "decode e (encode e 4 (w :: 32 word)) = w"
  by (cases e) (simp_all add: decode_def encode_def dec_enc_be4)

lemma length_put_bytes:
  "off + length new \<le> length bs \<Longrightarrow> length (put_bytes off new bs) = length bs"
  by (simp add: put_bytes_def)

lemma get_put_same:
  "off + length new \<le> length bs \<Longrightarrow> n = length new \<Longrightarrow>
     get_bytes off n (put_bytes off new bs) = new"
  by (simp add: get_bytes_def put_bytes_def)

lemma get_put_before:
  "off + n \<le> off' \<Longrightarrow> off' + length new \<le> length bs \<Longrightarrow>
     get_bytes off n (put_bytes off' new bs) = get_bytes off n bs"
  by (simp add: get_bytes_def put_bytes_def take_drop)

lemma get_put_after:
  "off' + length new \<le> off \<Longrightarrow> off' + length new \<le> length bs \<Longrightarrow>
     get_bytes off n (put_bytes off' new bs) = get_bytes off n bs"
  by (simp add: get_bytes_def put_bytes_def)

lemmas bytes_simps = get_put_same get_put_before get_put_after length_put_bytes
  length_encode decode_encode2 decode_encode4

section \<open>The registry and the header fields\<close>

lemma dtype_of_code_cases:
  "dtype_of_code c = Some dt \<Longrightarrow>
     (c, dt) \<in> {(0, np_dtype (Scalar Void)), (1, np_dtype (Scalar Void)),
       (2, np_dtype (Scalar UInt8)), (4, np_dtype (Scalar Int16)),
       (8, np_dtype (Scalar Int32)), (16, np_dtype (Scalar Float32)),
       (32, np_dtype (Scalar Complex64)), (64, np_dtype (Scalar Float64)),
       (128, np_dtype RGB), (255, np_dtype (Scalar Void))}"
  by (auto simp add: dtype_of_code_def dtdefs_def split: if_splits)

lemma dtype_of_code_bounds:
  assumes "dtype_of_code c = Some dt"
  shows "0 \<le> c \<and> c \<le> 255 \<and> dt_itemsize dt \<le> 8"
  using dtype_of_code_cases [OF assms] by (auto simp add: RGB_def)

lemma code_of_key_dtype:
  "code_of_key k = Some c \<Longrightarrow> \<exists>dt. dtype_of_code c = Some dt"
  by (cases k) (auto simp add: code_of_key_def dtype_of_code_def dtdefs_def split: if_splits)

lemma sint_word_of_int16: "- 32768 \<le> i \<Longrightarrow> i < 32768 \<Longrightarrow> sint (word_of_int i :: 16 word) = i"
  by (simp add: sint_sbintrunc' signed_take_bit_int_eq_self)

lemma datatype_after_set:
  assumes "length (buffer d) = 348"
  shows "fld_i2 (set_i2 ''bitpix'' 0 b (set_i2 ''datatype'' 0 c d)) ''datatype'' 0 = c"
    and "fld_i2 (set_i2 ''bitpix'' 0 b (set_i2 ''datatype'' 0 c d)) ''bitpix'' 0 = b"
  using assms by (simp_all add: fld_i2_def set_i2_def offs bytes_simps)


lemma buffer_set_i2 [simp]: "dt_order (set_i2 nm i v d) = dt_order d"
  by (simp add: set_i2_def)
lemma buffer_set_i4 [simp]: "dt_order (set_i4 nm i v d) = dt_order d"
  by (simp add: set_i4_def)
lemma buffer_set_f4 [simp]: "dt_order (set_f4 nm i v d) = dt_order d"
  by (simp add: set_f4_def)

lemma length_set_i2:
  "field_offset header_dtype nm + 2 * i + 2 \<le> length (buffer d) \<Longrightarrow>
     length (buffer (set_i2 nm i v d)) = length (buffer d)"
  by (simp add: set_i2_def bytes_simps)

lemma length_set_i4:
  "field_offset header_dtype nm + 4 * i + 4 \<le> length (buffer d) \<Longrightarrow>
     length (buffer (set_i4 nm i v d)) = length (buffer d)"
  by (simp add: set_i4_def bytes_simps)

lemma length_set_f4:
  "field_offset header_dtype nm + 4 * i + 4 \<le> length (buffer d) \<Longrightarrow>
     length (buffer (set_f4 nm i v d)) = length (buffer d)"
  by (simp add: set_f4_def bytes_simps)

lemma upt8: "[0..<8] = [0, 1, 2, 3, 4, 5, 6, 7]"
  by (simp add: upt_rec)

lemma len348_set_i2:
  "length (buffer d) = 348 \<Longrightarrow> field_offset header_dtype nm + 2 * i + 2 \<le> 348 \<Longrightarrow>
     length (buffer (set_i2 nm i v d)) = 348"
  by (simp add: length_set_i2)

lemma len348_set_i4:
  "length (buffer d) = 348 \<Longrightarrow> field_offset header_dtype nm + 4 * i + 4 \<le> 348 \<Longrightarrow>
     length (buffer (set_i4 nm i v d)) = 348"
  by (simp add: length_set_i4)

lemma len348_set_f4:
  "length (buffer d) = 348 \<Longrightarrow> field_offset header_dtype nm + 4 * i + 4 \<le> 348 \<Longrightarrow>
     length (buffer (set_f4 nm i v d)) = 348"
  by (simp add: length_set_f4)

lemmas len348 = len348_set_i2 len348_set_i4 len348_set_f4

lemma length_empty_headerdata: "length (buffer (empty_headerdata e)) = 348"
  by (simp add: empty_headerdata_def np_zeros_def header_dtype_itemsize fill_i2_def
      fill_f4_def upt8 len348 offs)


lemma get_data_dtype_after_set:
  assumes len: "length (binaryblock h) = 348"
    and k: "code_of_key k = Some c"
    and dt: "dtype_of_code c = Some dt"
    and ok: "\<not> (dt_type dt = Void \<and> dt_fields dt = [])"
  shows "fst (set_data_dtype k h) = None"
    and "get_data_dtype (snd (set_data_dtype k h)) = Inr (newbyteorder (endianness h) dt)"
proof -
  from dtype_of_code_bounds [OF dt] have b: "0 \<le> c" "c \<le> 255" by simp_all
  define cw :: "16 word" where "cw = word_of_int c"
  define bw :: "16 word" where "bw = word_of_int (int (dt_itemsize dt * 8))"
  have sc: "sint cw = c"
    unfolding cw_def by (rule sint_word_of_int16) (use b in simp_all)
  let ?d = "set_i2 ''bitpix'' 0 bw (set_i2 ''datatype'' 0 cw (header_data h))"
  have res: "set_data_dtype k h = (None, h\<lparr>header_data := ?d\<rparr>)"
    using ok k dt by (simp add: set_data_dtype_def cw_def bw_def)
  have l: "length (buffer (header_data h)) = 348"
    using len by (simp add: binaryblock_def)
  have f1: "sint (fld_i2 ?d ''datatype'' 0) = c"
    by (simp only: datatype_after_set [OF l] sc)
  have f3: "dt_order ?d = dt_order (header_data h)"
    by (simp only: buffer_set_i2)
  show "fst (set_data_dtype k h) = None" by (simp add: res)
  show "get_data_dtype (snd (set_data_dtype k h)) = Inr (newbyteorder (endianness h) dt)"
    unfolding res by (simp add: get_data_dtype_def f1 f3 dt endianness_def)
qed

lemma newbyteorder_uint8: "newbyteorder e (np_dtype (Scalar UInt8)) = np_dtype (Scalar UInt8)"
  by (simp add: newbyteorder_def)

lemma newbyteorder_native:
  "newbyteorder native_code (np_dtype t) = np_dtype t"
  by (cases t) (simp_all add: newbyteorder_def)

section \<open>Reading a field after a write\<close>

lemma fld_i2_set_i2_same:
  "length (buffer d) = 348 \<Longrightarrow> field_offset header_dtype nm + 2 * i + 2 \<le> 348 \<Longrightarrow>
     fld_i2 (set_i2 nm i v d) nm i = v"
  by (simp add: fld_i2_def set_i2_def bytes_simps)

lemma fld_i4_set_i4_same:
  "length (buffer d) = 348 \<Longrightarrow> field_offset header_dtype nm + 4 * i + 4 \<le> 348 \<Longrightarrow>
     fld_i4 (set_i4 nm i v d) nm i = v"
  by (simp add: fld_i4_def set_i4_def bytes_simps)

lemma fld_f4_set_f4_same:
  "length (buffer d) = 348 \<Longrightarrow> field_offset header_dtype nm + 4 * i + 4 \<le> 348 \<Longrightarrow>
     fld_f4 (set_f4 nm i v d) nm i = v"
  by (simp add: fld_f4_def set_f4_def bytes_simps)

lemma get_put_other:
  "length bs = 348 \<Longrightarrow> b + length new \<le> 348 \<Longrightarrow> a + n \<le> b \<or> b + length new \<le> a \<Longrightarrow>
     get_bytes a n (put_bytes b new bs) = get_bytes a n bs"
  by (auto simp add: get_put_before get_put_after)

lemma fld_i2_set_i2_other:
  "length (buffer d) = 348 \<Longrightarrow> field_offset header_dtype nm' + 2 * j + 2 \<le> 348 \<Longrightarrow>
   field_offset header_dtype nm + 2 * i + 2 \<le> field_offset header_dtype nm' + 2 * j
     \<or> field_offset header_dtype nm' + 2 * j + 2 \<le> field_offset header_dtype nm + 2 * i \<Longrightarrow>
     fld_i2 (set_i2 nm' j v d) nm i = fld_i2 d nm i"
  by (simp add: fld_i2_def set_i2_def get_put_other length_encode)

lemma fld_i2_set_i4_other:
  "length (buffer d) = 348 \<Longrightarrow> field_offset header_dtype nm' + 4 * j + 4 \<le> 348 \<Longrightarrow>
   field_offset header_dtype nm + 2 * i + 2 \<le> field_offset header_dtype nm' + 4 * j
     \<or> field_offset header_dtype nm' + 4 * j + 4 \<le> field_offset header_dtype nm + 2 * i \<Longrightarrow>
     fld_i2 (set_i4 nm' j v d) nm i = fld_i2 d nm i"
  by (simp add: fld_i2_def set_i4_def get_put_other length_encode)

lemma fld_i2_set_f4_other:
  "length (buffer d) = 348 \<Longrightarrow> field_offset header_dtype nm' + 4 * j + 4 \<le> 348 \<Longrightarrow>
   field_offset header_dtype nm + 2 * i + 2 \<le> field_offset header_dtype nm' + 4 * j
     \<or> field_offset header_dtype nm' + 4 * j + 4 \<le> field_offset header_dtype nm + 2 * i \<Longrightarrow>
     fld_i2 (set_f4 nm' j v d) nm i = fld_i2 d nm i"
  by (simp add: fld_i2_def set_f4_def get_put_other length_encode)

lemma fld_i4_set_i2_other:
  "length (buffer d) = 348 \<Longrightarrow> field_offset header_dtype nm' + 2 * j + 2 \<le> 348 \<Longrightarrow>
   field_offset header_dtype nm + 4 * i + 4 \<le> field_offset header_dtype nm' + 2 * j
     \<or> field_offset header_dtype nm' + 2 * j + 2 \<le> field_offset header_dtype nm + 4 * i \<Longrightarrow>
     fld_i4 (set_i2 nm' j v d) nm i = fld_i4 d nm i"
  by (simp add: fld_i4_def set_i2_def get_put_other length_encode)

lemma fld_i4_set_i4_other:
  "length (buffer d) = 348 \<Longrightarrow> field_offset header_dtype nm' + 4 * j + 4 \<le> 348 \<Longrightarrow>
   field_offset header_dtype nm + 4 * i + 4 \<le> field_offset header_dtype nm' + 4 * j
     \<or> field_offset header_dtype nm' + 4 * j + 4 \<le> field_offset header_dtype nm + 4 * i \<Longrightarrow>
     fld_i4 (set_i4 nm' j v d) nm i = fld_i4 d nm i"
  by (simp add: fld_i4_def set_i4_def get_put_other length_encode)

lemma fld_i4_set_f4_other:
  "length (buffer d) = 348 \<Longrightarrow> field_offset header_dtype nm' + 4 * j + 4 \<le> 348 \<Longrightarrow>
   field_offset header_dtype nm + 4 * i + 4 \<le> field_offset header_dtype nm' + 4 * j
     \<or> field_offset header_dtype nm' + 4 * j + 4 \<le> field_offset header_dtype nm + 4 * i \<Longrightarrow>
     fld_i4 (set_f4 nm' j v d) nm i = fld_i4 d nm i"
  by (simp add: fld_i4_def set_f4_def get_put_other length_encode)

lemma fld_f4_set_i2_other:
  "length (buffer d) = 348 \<Longrightarrow> field_offset header_dtype nm' + 2 * j + 2 \<le> 348 \<Longrightarrow>
   field_offset header_dtype nm + 4 * i + 4 \<le> field_offset header_dtype nm' + 2 * j
     \<or> field_offset header_dtype nm' + 2 * j + 2 \<le> field_offset header_dtype nm + 4 * i \<Longrightarrow>
     fld_f4 (set_i2 nm' j v d) nm i = fld_f4 d nm i"
  by (simp add: fld_f4_def set_i2_def get_put_other length_encode)

lemma fld_f4_set_i4_other:
  "length (buffer d) = 348 \<Longrightarrow> field_offset header_dtype nm' + 4 * j + 4 \<le> 348 \<Longrightarrow>
   field_offset header_dtype nm + 4 * i + 4 \<le> field_offset header_dtype nm' + 4 * j
     \<or> field_offset header_dtype nm' + 4 * j + 4 \<le> field_offset header_dtype nm + 4 * i \<Longrightarrow>
     fld_f4 (set_i4 nm' j v d) nm i = fld_f4 d nm i"
  by (simp add: fld_f4_def set_i4_def get_put_other length_encode)

lemma fld_f4_set_f4_other:
  "length (buffer d) = 348 \<Longrightarrow> field_offset header_dtype nm' + 4 * j + 4 \<le> 348 \<Longrightarrow>
   field_offset header_dtype nm + 4 * i + 4 \<le> field_offset header_dtype nm' + 4 * j
     \<or> field_offset header_dtype nm' + 4 * j + 4 \<le> field_offset header_dtype nm + 4 * i \<Longrightarrow>
     fld_f4 (set_f4 nm' j v d) nm i = fld_f4 d nm i"
  by (simp add: fld_f4_def set_f4_def get_put_other length_encode)

lemmas fld_set =
  fld_i2_set_i2_same fld_i4_set_i4_same fld_f4_set_f4_same
  fld_i2_set_i2_other fld_i2_set_i4_other fld_i2_set_f4_other
  fld_i4_set_i2_other fld_i4_set_i4_other fld_i4_set_f4_other
  fld_f4_set_i2_other fld_f4_set_i4_other fld_f4_set_f4_other

lemma len_np_zeros: "length (buffer (np_zeros e)) = 348"
  by (simp add: np_zeros_def header_dtype_itemsize)

lemmas empty_unfold = empty_headerdata_def fill_i2_def fill_f4_def upt8 Let_def

lemma empty_sizeof_hdr: "fld_i4 (empty_headerdata e) ''sizeof_hdr'' 0 = 348"
  by (simp add: empty_unfold fld_set len348 len_np_zeros offs)

lemma empty_datatype: "fld_i2 (empty_headerdata e) ''datatype'' 0 = 16"
  by (simp add: empty_unfold fld_set len348 len_np_zeros offs)

lemma empty_bitpix: "fld_i2 (empty_headerdata e) ''bitpix'' 0 = 32"
  by (simp add: empty_unfold fld_set len348 len_np_zeros offs)


lemma empty_pixdim: "i < 8 \<Longrightarrow> fld_f4 (empty_headerdata e) ''pixdim'' i = f32_one"
  apply (subgoal_tac "i \<in> {0, 1, 2, 3, 4, 5, 6, 7}")
   apply (elim insertE emptyE; simp add: empty_unfold fld_set len348 len_np_zeros offs)
  apply auto
  done

section \<open>The dim field under set_data_shape\<close>


lemma len_set_dim:
  "length (buffer d) = 348 \<Longrightarrow> k < 8 \<Longrightarrow> length (buffer (set_i2 ''dim'' k v d)) = 348"
  by (simp add: len348 offs)


lemma len_fill_dim:
  "length (buffer d) = 348 \<Longrightarrow> length (buffer (fill_i2 ''dim'' 8 v d)) = 348"
  by (simp add: fill_i2_def upt8 len_set_dim)


lemma len_foldl_dim:
  "length (buffer d) = 348 \<Longrightarrow> k + length vs \<le> 8 \<Longrightarrow>
     length (buffer (foldl (\<lambda>d (i, v). set_i2 ''dim'' i (word_of_int v) d) d (enumerate k vs)))
       = 348"
proof (induction vs arbitrary: d k)
  case Nil
  then show ?case by simp
next
  case (Cons v vs)
  from Cons.prems have "length (buffer (set_i2 ''dim'' k (word_of_int v) d)) = 348"
    by (simp add: len_set_dim)
  with Cons.IH [of "set_i2 ''dim'' k (word_of_int v) d" "Suc k"] Cons.prems
  show ?case by simp
qed






lemma set_data_shape_ok:
  assumes n: "length shape \<le> 7"
  shows "set_data_shape shape h =
     (None, h\<lparr>header_data :=
        foldl (\<lambda>d (i, v). set_i2 ''dim'' i (word_of_int v) d)
          (set_i2 ''dim'' 0 (word_of_int (int (length shape)))
             (fill_i2 ''dim'' 8 1 (header_data h)))
          (enumerate 1 shape)\<rparr>)"
  using n by (simp add: set_data_shape_def Let_def)


lemma len_after_set_data_shape:
  assumes len: "length (buffer (header_data h)) = 348" and n: "length shape \<le> 7"
  shows "length (buffer (header_data (snd (set_data_shape shape h)))) = 348"
proof -
  define w0 :: "16 word" where "w0 = word_of_int (int (length shape))"
  let ?d0 = "fill_i2 ''dim'' 8 1 (header_data h)"
  let ?d1 = "set_i2 ''dim'' 0 w0 ?d0"
  have l0: "length (buffer ?d0) = 348" by (rule len_fill_dim [OF len])
  have l1: "length (buffer ?d1) = 348" by (rule len_set_dim [OF l0]) simp
  have b: "1 + length shape \<le> 8" using n by simp
  have hd: "header_data (snd (set_data_shape shape h))
      = foldl (\<lambda>d (i, v). set_i2 ''dim'' i (word_of_int v) d) ?d1 (enumerate 1 shape)"
    by (simp add: set_data_shape_ok [OF n] w0_def)
  show ?thesis
    by (simp only: hd len_foldl_dim [OF l1 b])
qed


section \<open>The checks\<close>

lemma chk_sizeof_hdr_nofix: "fst (chk_sizeof_hdr h False) = h"
  by (simp add: chk_sizeof_hdr_def Let_def)

lemma chk_datatype_same: "fst (chk_datatype h fix) = h"
  by (simp add: chk_datatype_def Let_def)

lemma chk_bitpix_nofix: "fst (chk_bitpix h False) = h"
  by (simp add: chk_bitpix_def Let_def split: option.split)

lemma chk_pixdims_nofix: "fst (chk_pixdims h False) = h"
  by (simp add: chk_pixdims_def Let_def)

lemma check_only_unmodified: "fst (battery_check_only get_checks h) = h"
proof -
  obtain r1 where 1: "chk_sizeof_hdr h False = (h, r1)"
    using chk_sizeof_hdr_nofix [of h] by (cases "chk_sizeof_hdr h False") simp
  obtain r2 where 2: "chk_datatype h False = (h, r2)"
    using chk_datatype_same [of h False] by (cases "chk_datatype h False") simp
  obtain r3 where 3: "chk_bitpix h False = (h, r3)"
    using chk_bitpix_nofix [of h] by (cases "chk_bitpix h False") simp
  obtain r4 where 4: "chk_pixdims h False = (h, r4)"
    using chk_pixdims_nofix [of h] by (cases "chk_pixdims h False") simp
  show ?thesis
    by (simp add: battery_check_only_def get_checks_def 1 2 3 4)
qed

lemma f32_abs_not_lt0: "\<not> f32_lt0 (f32_abs w)"
proof -
  have "unat (w AND 0x7FFFFFFF) \<le> unat (0x7FFFFFFF :: 32 word)"
    by (rule word_and_le1 [THEN word_le_nat_alt [THEN iffD1]])
  then have "unat (f32_abs w) < 2 ^ 31"
    by (simp add: f32_abs_def)
  then have s: "unat (f32_abs w) div 2 ^ 31 = 0" by simp
  show ?thesis
    unfolding f32_lt0_def f32_val_def Let_def s
    by (simp del: of_nat_mult of_nat_add of_nat_power)
qed


lemma pixdims_after_abs:
  assumes len: "length (buffer d) = 348"
  shows "map (fld_f4 (foldl (\<lambda>d' i. set_f4 ''pixdim'' i (f32_abs (fld_f4 d ''pixdim'' i)) d')
                  d [1, 2, 3]) ''pixdim'') [1, 2, 3]
         = map (\<lambda>i. f32_abs (fld_f4 d ''pixdim'' i)) [1, 2, 3]"
    and "fld_i4 (foldl (\<lambda>d' i. set_f4 ''pixdim'' i (f32_abs (fld_f4 d ''pixdim'' i)) d')
                  d [1, 2, 3]) ''sizeof_hdr'' 0 = fld_i4 d ''sizeof_hdr'' 0"
    and "length (buffer (foldl (\<lambda>d' i. set_f4 ''pixdim'' i (f32_abs (fld_f4 d ''pixdim'' i)) d')
                  d [1, 2, 3])) = 348"
  using len by (simp_all add: fld_set len348 offs)

lemma fields_after_sizeof:
  assumes len: "length (buffer d) = 348"
  shows "fld_i4 (set_i4 ''sizeof_hdr'' 0 v d) ''sizeof_hdr'' 0 = v"
    and "fld_i2 (set_i4 ''sizeof_hdr'' 0 v d) ''datatype'' 0 = fld_i2 d ''datatype'' 0"
    and "fld_i2 (set_i4 ''sizeof_hdr'' 0 v d) ''bitpix'' 0 = fld_i2 d ''bitpix'' 0"
    and "map (fld_f4 (set_i4 ''sizeof_hdr'' 0 v d) ''pixdim'') [1, 2, 3]
           = map (fld_f4 d ''pixdim'') [1, 2, 3]"
    and "length (buffer (set_i4 ''sizeof_hdr'' 0 v d)) = 348"
  using len by (simp_all add: fld_set len348 offs)


lemma f32_val_examples:
  "f32_val 0xC0000000 = Finite (- 2)"
  "f32_val 0x40000000 = Finite 2"
  "f32_val 0x3F800000 = Finite 1"
  "f32_val 0x40400000 = Finite 3"
  "f32_val 0 = Finite 0"
  by (simp_all add: f32_val_def)

section \<open>Byte swapping\<close>

lemma length_swap_elems:
  "length bs = sz * c \<Longrightarrow> length (swap_elems sz c bs) = sz * c"
  by (induction c arbitrary: bs) simp_all

lemma swap_elems_invol:
  "length bs = sz * c \<Longrightarrow> swap_elems sz c (swap_elems sz c bs) = bs"
proof (induction c arbitrary: bs)
  case 0
  then show ?case by simp
next
  case (Suc c)
  then have l: "length (drop sz bs) = sz * c" by simp
  from Suc.prems have t: "length (rev (take sz bs)) = sz" by simp
  have "swap_elems sz (Suc c) (swap_elems sz (Suc c) bs)
      = rev (take sz (rev (take sz bs) @ swap_elems sz c (drop sz bs)))
        @ swap_elems sz c (drop sz (rev (take sz bs) @ swap_elems sz c (drop sz bs)))"
    by simp
  also have "\<dots> = take sz bs @ swap_elems sz c (swap_elems sz c (drop sz bs))"
    using t by simp
  also have "\<dots> = take sz bs @ drop sz bs"
    by (simp only: Suc.IH [OF l])
  finally show ?case by simp
qed

lemma length_swap_field:
  "fsize t * c \<le> length bs \<Longrightarrow> length (swap_field t c bs) = fsize t * c"
  by (cases t) (simp_all add: swap_field_def length_swap_elems)

lemma swap_field_invol:
  assumes le: "fsize t * c \<le> length bs"
  shows "swap_field t c (swap_field t c bs @ rest) = take (fsize t * c) bs"
proof -
  let ?ys = "take (fsize t * c) bs"
  have ly: "length ?ys = fsize t * c" using le by simp
  have num: "swap_elems (fsize t) c (take (fsize t * c) (swap_elems (fsize t) c ?ys @ rest)) = ?ys"
    by (simp add: length_swap_elems [OF ly] swap_elems_invol [OF ly])
  show ?thesis
  proof (cases t)
    case (S n)
    then show ?thesis using le by (simp add: swap_field_def)
  next
    case I4
    with num show ?thesis by (simp add: swap_field_def)
  next
    case I2
    with num show ?thesis by (simp add: swap_field_def)
  next
    case F4
    with num show ?thesis by (simp add: swap_field_def)
  qed
qed

lemma length_byteswap_fields:
  "length bs = dtype_itemsize fs \<Longrightarrow> length (byteswap_fields fs bs) = dtype_itemsize fs"
proof (induction fs arbitrary: bs)
  case Nil
  then show ?case by simp
next
  case (Cons f fs)
  obtain nm t c where f: "f = (nm, t, c)" by (cases f)
  from Cons.prems f have l: "length (drop (fsize t * c) bs) = dtype_itemsize fs"
    and le: "fsize t * c \<le> length bs" by simp_all
  show ?case
    unfolding f byteswap_fields.simps
    by (simp add: length_swap_field [OF le] Cons.IH [OF l])
qed

lemma byteswap_fields_invol:
  "length bs = dtype_itemsize fs \<Longrightarrow> byteswap_fields fs (byteswap_fields fs bs) = bs"
proof (induction fs arbitrary: bs)
  case Nil
  then show ?case by simp
next
  case (Cons f fs)
  obtain nm t c where f: "f = (nm, t, c)" by (cases f)
  from Cons.prems f have l: "length (drop (fsize t * c) bs) = dtype_itemsize fs"
    and le: "fsize t * c \<le> length bs" by simp_all
  let ?a = "swap_field t c bs"
  let ?b = "byteswap_fields fs (drop (fsize t * c) bs)"
  have la: "length ?a = fsize t * c" by (rule length_swap_field [OF le])
  have "byteswap_fields (f # fs) (byteswap_fields (f # fs) bs)
      = swap_field t c (?a @ ?b) @ byteswap_fields fs (drop (fsize t * c) (?a @ ?b))"
    unfolding f byteswap_fields.simps ..
  also have "swap_field t c (?a @ ?b) = take (fsize t * c) bs"
    by (rule swap_field_invol [OF le])
  also have "drop (fsize t * c) (?a @ ?b) = ?b"
    using la by simp
  also have "byteswap_fields fs ?b = drop (fsize t * c) bs"
    by (rule Cons.IH [OF l])
  finally show ?case by simp
qed


lemma swap_elems_get:
  "k < c \<Longrightarrow> length bs = sz * c \<Longrightarrow>
     get_bytes (sz * k) sz (swap_elems sz c bs) = rev (get_bytes (sz * k) sz bs)"
proof (induction c arbitrary: k bs)
  case 0
  then show ?case by simp
next
  case (Suc c)
  from Suc.prems have le: "sz \<le> length bs" by simp
  from Suc.prems have l: "length (drop sz bs) = sz * c" by simp
  show ?case
  proof (cases k)
    case 0
    with le show ?thesis by (simp add: get_bytes_def)
  next
    case (Suc k')
    with Suc.prems have k': "k' < c" by simp
    have "get_bytes (sz * k) sz (swap_elems sz (Suc c) bs)
        = get_bytes (sz * k') sz (swap_elems sz c (drop sz bs))"
      using le Suc by (simp add: get_bytes_def)
    also have "\<dots> = rev (get_bytes (sz * k') sz (drop sz bs))"
      by (rule Suc.IH [OF k' l])
    also have "\<dots> = rev (get_bytes (sz * k) sz bs)"
      using Suc by (simp add: get_bytes_def add.commute)
    finally show ?thesis .
  qed
qed

lemma swap_field_get:
  assumes num: "case t of S n \<Rightarrow> False | _ \<Rightarrow> True"
    and k: "k < c" and le: "fsize t * c \<le> length bs"
  shows "get_bytes (fsize t * k) (fsize t) (swap_field t c bs @ rest)
       = rev (get_bytes (fsize t * k) (fsize t) bs)"
proof -
  let ?ys = "take (fsize t * c) bs"
  have ly: "length ?ys = fsize t * c" using le by simp
  have sf: "swap_field t c bs = swap_elems (fsize t) c ?ys"
    using num by (cases t) (simp_all add: swap_field_def)
  have ls: "length (swap_elems (fsize t) c ?ys) = fsize t * c"
    by (rule length_swap_elems [OF ly])
  have inside: "fsize t * k + fsize t \<le> fsize t * c"
  proof -
    from k have "Suc k \<le> c" by simp
    then have "fsize t * Suc k \<le> fsize t * c" by (rule mult_le_mono2)
    then show ?thesis by simp
  qed
  have "get_bytes (fsize t * k) (fsize t) (swap_field t c bs @ rest)
      = get_bytes (fsize t * k) (fsize t) (swap_elems (fsize t) c ?ys)"
    unfolding sf using ls inside by (simp add: get_bytes_def)
  also have "\<dots> = rev (get_bytes (fsize t * k) (fsize t) ?ys)"
    by (rule swap_elems_get [OF k ly])
  also have "get_bytes (fsize t * k) (fsize t) ?ys = get_bytes (fsize t * k) (fsize t) bs"
    using inside by (simp add: get_bytes_def take_drop min_def)
  finally show ?thesis .
qed

lemma get_byteswap_fields:
  assumes "length bs = dtype_itemsize fs"
    and "find (\<lambda>f. fst f = nm) fs = Some (nm, t, c)"
    and "case t of S n \<Rightarrow> False | _ \<Rightarrow> True"
    and "k < c"
  shows "get_bytes (field_offset fs nm + fsize t * k) (fsize t) (byteswap_fields fs bs)
       = rev (get_bytes (field_offset fs nm + fsize t * k) (fsize t) bs)"
  using assms
proof (induction fs arbitrary: bs)
  case Nil
  then show ?case by simp
next
  case (Cons f fs)
  obtain n' t' c' where f: "f = (n', t', c')" by (cases f)
  from Cons.prems(1) f have l: "length (drop (fsize t' * c') bs) = dtype_itemsize fs"
    and le: "fsize t' * c' \<le> length bs" by simp_all
  show ?case
  proof (cases "n' = nm")
    case True
    with Cons.prems(2) f have tc: "t' = t" "c' = c" by simp_all
    show ?thesis
      unfolding f byteswap_fields.simps
      using True tc swap_field_get [OF Cons.prems(3) Cons.prems(4), of bs] le
      by simp
  next
    case False
    with Cons.prems(2) f have fnd: "find (\<lambda>f. fst f = nm) fs = Some (nm, t, c)" by simp
    have la: "length (swap_field t' c' bs) = fsize t' * c'"
      by (rule length_swap_field [OF le])
    have "get_bytes (field_offset (f # fs) nm + fsize t * k) (fsize t)
            (byteswap_fields (f # fs) bs)
        = get_bytes (field_offset fs nm + fsize t * k) (fsize t)
            (byteswap_fields fs (drop (fsize t' * c') bs))"
      unfolding f byteswap_fields.simps
      using False la by (simp add: get_bytes_def)
    also have "\<dots> = rev (get_bytes (field_offset fs nm + fsize t * k) (fsize t)
            (drop (fsize t' * c') bs))"
      by (rule Cons.IH [OF l fnd Cons.prems(3) Cons.prems(4)])
    also have "\<dots> = rev (get_bytes (field_offset (f # fs) nm + fsize t * k) (fsize t) bs)"
      unfolding f using False by (simp add: get_bytes_def ac_simps)
    finally show ?thesis .
  qed
qed

lemma decode_rev: "e \<noteq> e' \<Longrightarrow> decode e (rev bs) = decode e' bs"
  by (cases e; cases e') (simp_all add: decode_def)

lemma dim_byteswap:
  assumes len: "length bs = 348" and i: "i < 8" and e: "e \<noteq> e'"
  shows "fld_i2 \<lparr>dt_order = e, buffer = byteswap_fields header_dtype bs\<rparr> ''dim'' i
       = fld_i2 \<lparr>dt_order = e', buffer = bs\<rparr> ''dim'' i"
proof -
  have l: "length bs = dtype_itemsize header_dtype"
    using len by (simp add: header_dtype_itemsize)
  have f: "find (\<lambda>f. fst f = ''dim'') header_dtype = Some (''dim'', I2, 8)"
    by (simp add: header_dtype_def header_key_dtd_def image_dimension_dtd_def)
  have "get_bytes (field_offset header_dtype ''dim'' + fsize I2 * i) (fsize I2)
          (byteswap_fields header_dtype bs)
      = rev (get_bytes (field_offset header_dtype ''dim'' + fsize I2 * i) (fsize I2) bs)"
    by (rule get_byteswap_fields [OF l f _ i]) simp
  then show ?thesis
    by (simp add: fld_i2_def decode_rev [OF e])
qed

section \<open>Construction and conversion\<close>

lemma endianness_eq: "endianness h = dt_order (header_data h)"
  by (cases "dt_order (header_data h)") (simp_all add: endianness_def native_code_def swapped_code_def)

lemma init_nocheck:
  "length bb = 348 \<Longrightarrow>
     AnalyzeHeader (Some bb) (Some e) False extra policy
       = Inr \<lparr>header_data = \<lparr>dt_order = e, buffer = bb\<rparr>,
              extra_data = (case extra of None \<Rightarrow> Map.empty | Some m \<Rightarrow> m)\<rparr>"
  by (simp add: AnalyzeHeader_def header_dtype_itemsize native_view_def Let_def)

lemma init_check:
  "length bb = 348 \<Longrightarrow>
     AnalyzeHeader (Some bb) (Some e) True extra policy
       = (case check_fix policy
                 \<lparr>header_data = \<lparr>dt_order = e, buffer = bb\<rparr>,
                  extra_data = (case extra of None \<Rightarrow> Map.empty | Some m \<Rightarrow> m)\<rparr> of
            (Some err, self1) \<Rightarrow> Inl err
          | (None, self1) \<Rightarrow> Inr self1)"
  by (simp add: AnalyzeHeader_def header_dtype_itemsize native_view_def Let_def)

lemma length_byteswap: "length bs = 348 \<Longrightarrow> length (byteswap_fields header_dtype bs) = 348"
  using length_byteswap_fields [of bs header_dtype] by (simp add: header_dtype_itemsize)

lemma byteswap_invol: "length bs = 348 \<Longrightarrow>
    byteswap_fields header_dtype (byteswap_fields header_dtype bs) = bs"
  using byteswap_fields_invol [of bs header_dtype] by (simp add: header_dtype_itemsize)

lemma as_byteswapped_same:
  assumes "length (binaryblock h) = 348" "e = endianness h"
  shows "as_byteswapped e policy h
       = Inr \<lparr>header_data = header_data h, extra_data = Map.empty\<rparr>"
  using assms
  by (simp add: as_byteswapped_def init_nocheck binaryblock_def endianness_eq)

lemma as_byteswapped_other:
  assumes "length (binaryblock h) = 348" "e \<noteq> endianness h"
  shows "as_byteswapped e policy h
       = Inr \<lparr>header_data = \<lparr>dt_order = e,
                  buffer = byteswap_fields header_dtype (buffer (header_data h))\<rparr>,
              extra_data = Map.empty\<rparr>"
  using assms
  by (simp add: as_byteswapped_def init_nocheck binaryblock_def byteswap_def Let_def
      length_byteswap)

lemma run_checks_extra:
  "extra_data (fst (chk_sizeof_hdr h fix)) = extra_data h"
  "extra_data (fst (chk_datatype h fix)) = extra_data h"
  "extra_data (fst (chk_bitpix h fix)) = extra_data h"
  "extra_data (fst (chk_pixdims h fix)) = extra_data h"
  by (simp_all add: chk_sizeof_hdr_def chk_datatype_def chk_bitpix_def chk_pixdims_def Let_def
      split: option.split)

lemma battery_fst:
  "fst (run_checks [c1, c2, c3, c4] fix h)
     = fst (c4 (fst (c3 (fst (c2 (fst (c1 h fix)) fix)) fix)) fix)"
  by (simp add: split_beta)

lemma check_fix_snd:
  "snd (check_fix policy h)
     = fst (chk_pixdims (fst (chk_bitpix (fst (chk_datatype (fst (chk_sizeof_hdr h True)) True))
          True)) True)"
  by (simp add: check_fix_def battery_check_fix_def get_checks_def split_beta)

lemma check_fix_extra: "extra_data (snd (check_fix policy h)) = extra_data h"
  by (simp only: check_fix_snd run_checks_extra)


lemma check_fix_extra':
  "check_fix policy self = (e, s1) \<Longrightarrow> extra_data s1 = extra_data self"
  using check_fix_extra [of policy self] by simp

lemma chk_clean:
  "level (snd (chk_sizeof_hdr h False)) = 0 \<Longrightarrow>
     fst (chk_sizeof_hdr h True) = h \<and> level (snd (chk_sizeof_hdr h True)) = 0"
  "level (snd (chk_datatype h False)) = 0 \<Longrightarrow>
     fst (chk_datatype h True) = h \<and> level (snd (chk_datatype h True)) = 0"
  "level (snd (chk_bitpix h False)) = 0 \<Longrightarrow>
     fst (chk_bitpix h True) = h \<and> level (snd (chk_bitpix h True)) = 0"
  "level (snd (chk_pixdims h False)) = 0 \<Longrightarrow>
     fst (chk_pixdims h True) = h \<and> level (snd (chk_pixdims h True)) = 0"
  by (simp_all add: chk_sizeof_hdr_def chk_datatype_def chk_bitpix_def chk_pixdims_def Let_def
      Report_def split: option.splits if_splits)

lemma clean_check_fix:
  assumes "snd (battery_check_only get_checks h) = []"
  shows "check_fix policy h = (None, h)"
proof -
  obtain r1 where 1: "chk_sizeof_hdr h False = (h, r1)"
    using chk_sizeof_hdr_nofix [of h] by (cases "chk_sizeof_hdr h False") simp
  obtain r2 where 2: "chk_datatype h False = (h, r2)"
    using chk_datatype_same [of h False] by (cases "chk_datatype h False") simp
  obtain r3 where 3: "chk_bitpix h False = (h, r3)"
    using chk_bitpix_nofix [of h] by (cases "chk_bitpix h False") simp
  obtain r4 where 4: "chk_pixdims h False = (h, r4)"
    using chk_pixdims_nofix [of h] by (cases "chk_pixdims h False") simp
  from assms have "filter (\<lambda>r. level r \<noteq> 0) [r1, r2, r3, r4] = []"
    by (simp add: battery_check_only_def get_checks_def 1 2 3 4)
  then have lv: "level r1 = 0" "level r2 = 0" "level r3 = 0" "level r4 = 0"
    by (simp_all split: if_splits)
  from chk_clean(1) [of h] 1 lv obtain q1 where a: "chk_sizeof_hdr h True = (h, q1)" "level q1 = 0"
    by (cases "chk_sizeof_hdr h True") simp
  from chk_clean(2) [of h] 2 lv obtain q2 where b: "chk_datatype h True = (h, q2)" "level q2 = 0"
    by (cases "chk_datatype h True") simp
  from chk_clean(3) [of h] 3 lv obtain q3 where c: "chk_bitpix h True = (h, q3)" "level q3 = 0"
    by (cases "chk_bitpix h True") simp
  from chk_clean(4) [of h] 4 lv obtain q4 where d: "chk_pixdims h True = (h, q4)" "level q4 = 0"
    by (cases "chk_pixdims h True") simp
  show ?thesis
    by (simp add: check_fix_def battery_check_fix_def get_checks_def a b c d)
qed

lemma header_rebuild:
  "extra_data H = Map.empty \<Longrightarrow>
     \<lparr>header_data = \<lparr>dt_order = dt_order (header_data H), buffer = buffer (header_data H)\<rparr>,
      extra_data = Map.empty\<rparr> = H"
  by (cases H) simp

lemma header_eq_extra: "header_eq a b \<Longrightarrow> extra_data a = extra_data b"
  by (simp add: header_eq_def Let_def split: if_splits)

lemma order_empty_headerdata:
  "dt_order (empty_headerdata e) = (case e of None \<Rightarrow> native_code | Some x \<Rightarrow> x)"
  by (simp add: empty_headerdata_def np_zeros_def fill_i2_def fill_f4_def upt8 Let_def)

lemma dtype_of_code_16: "dtype_of_code 16 = Some (np_dtype (Scalar Float32))"
  by (simp add: dtype_of_code_def dtdefs_def)

lemma empty_header_clean: "snd (battery_check_only get_checks (empty_header e)) = []"
proof -
  let ?h = "empty_header e :: 'a analyze_header"
  have 1: "chk_sizeof_hdr ?h False = (?h, Report (Some HeaderDataError))"
    by (simp add: chk_sizeof_hdr_def empty_header_def empty_sizeof_hdr)
  have 2: "chk_datatype ?h False = (?h, Report (Some HeaderDataError))"
    by (simp add: chk_datatype_def empty_header_def empty_datatype dtype_of_code_16)
  have 3: "chk_bitpix ?h False = (?h, Report None)"
    by (simp add: chk_bitpix_def empty_header_def empty_datatype empty_bitpix dtype_of_code_16)
  have 4: "chk_pixdims ?h False = (?h, Report (Some HeaderDataError))"
    by (simp add: chk_pixdims_def empty_header_def empty_pixdim f32_lt0_def f32_one_def
        f32_val_examples)
  show ?thesis
    by (simp add: battery_check_only_def get_checks_def 1 2 3 4 Report_def)
qed

lemma init_extra:
  "AnalyzeHeader (Some b) en c None policy = Inr h1 \<Longrightarrow> extra_data h1 = Map.empty"
  by (auto simp add: AnalyzeHeader_def Let_def
      split: if_splits prod.splits option.splits dest: check_fix_extra')

section \<open>Byte-order inference\<close>

text \<open>
  C2. The guess reads two fields of the raw record under native order, the first
  element of \<^verbatim>\<open>dim\<close> and \<^verbatim>\<open>sizeof_hdr\<close>, and nothing else. A \<^verbatim>\<open>dim[0]\<close> between 1 and 7 gives
  native whatever \<^verbatim>\<open>sizeof_hdr\<close> holds; \<^verbatim>\<open>dim[0] = 0\<close> gives swapped exactly when \<^verbatim>\<open>sizeof_hdr\<close>
  is 1543569408 and native otherwise; any other \<^verbatim>\<open>dim[0]\<close> (negative, or above 7) gives
  swapped. The last two conjuncts run the function on blocks of 348 bytes: with
  \<^verbatim>\<open>dim[0] = 1\<close> and \<^verbatim>\<open>sizeof_hdr = 1543569408\<close> the answer is native, and with the bit
  pattern of \<^verbatim>\<open>dim[0] = -1\<close> it is swapped.
\<close>

theorem guessed_endian_rules:
  "guessed_endian (native_view bb) =
     (if 1 \<le> sint (fld_i2 (native_view bb) ''dim'' 0)
          \<and> sint (fld_i2 (native_view bb) ''dim'' 0) \<le> 7 then native_code
      else if sint (fld_i2 (native_view bb) ''dim'' 0) = 0 then
        (if sint (fld_i4 (native_view bb) ''sizeof_hdr'' 0) = 1543569408
         then swapped_code else native_code)
      else swapped_code)
   \<and> (get_bytes 0 4 bb = get_bytes 0 4 bb' \<and> get_bytes 40 2 bb = get_bytes 40 2 bb'
        \<longrightarrow> guessed_endian (native_view bb) = guessed_endian (native_view bb'))
   \<and> guessed_endian (native_view
        ([0x00, 0x00, 0x01, 0x5C] @ replicate 36 0 @ [0x01, 0x00] @ replicate 306 0))
       = native_code
   \<and> guessed_endian (native_view
        ([0x5C, 0x01, 0x00, 0x00] @ replicate 36 0 @ [0xFF, 0xFF] @ replicate 306 0))
       = swapped_code"
proof -
  have rules: "guessed_endian (native_view bb) =
     (if 1 \<le> sint (fld_i2 (native_view bb) ''dim'' 0)
          \<and> sint (fld_i2 (native_view bb) ''dim'' 0) \<le> 7 then native_code
      else if sint (fld_i2 (native_view bb) ''dim'' 0) = 0 then
        (if sint (fld_i4 (native_view bb) ''sizeof_hdr'' 0) = 1543569408
         then swapped_code else native_code)
      else swapped_code)"
    by (simp add: guessed_endian_def Let_def)
  have dep: "get_bytes 0 4 bb = get_bytes 0 4 bb' \<and> get_bytes 40 2 bb = get_bytes 40 2 bb'
        \<longrightarrow> guessed_endian (native_view bb) = guessed_endian (native_view bb')"
    by (auto simp add: guessed_endian_def fld_i2_def fld_i4_def native_view_def offs)
  have ex1: "guessed_endian (native_view
        ([0x00, 0x00, 0x01, 0x5C] @ replicate 36 0 @ [0x01, 0x00] @ replicate 306 0))
       = native_code"
    by (simp add: guessed_endian_def fld_i2_def fld_i4_def native_view_def offs
        get_bytes_def decode_def dec_be_def native_code_def)
  have ex2: "guessed_endian (native_view
        ([0x5C, 0x01, 0x00, 0x00] @ replicate 36 0 @ [0xFF, 0xFF] @ replicate 306 0))
       = swapped_code"
    by (simp add: guessed_endian_def fld_i2_def fld_i4_def native_view_def offs
        get_bytes_def decode_def dec_be_def native_code_def)
  from rules dep ex1 ex2 show ?thesis by blast
qed

theorem guessed_endian_rules_witness:
  "guessed_endian (native_view (replicate 40 0 @ [0x03, 0x00] @ replicate 306 0xFF))
     = native_code
   \<and> guessed_endian (native_view (replicate 40 0 @ [0x03, 0x00] @ replicate 306 0xFF))
     = guessed_endian (native_view (replicate 40 0 @ [0x03, 0x00] @ replicate 306 0))"
proof -
  let ?b1 = "replicate 40 0 @ [0x03, 0x00] @ replicate 306 (0xFF :: byte)"
  let ?b2 = "replicate 40 0 @ [0x03, 0x00] @ replicate 306 (0 :: byte)"
  have same: "get_bytes 0 4 ?b1 = get_bytes 0 4 ?b2 \<and> get_bytes 40 2 ?b1 = get_bytes 40 2 ?b2"
    by (simp add: get_bytes_def)
  have d: "sint (fld_i2 (native_view ?b1) ''dim'' 0) = 3"
    by (simp add: fld_i2_def native_view_def offs get_bytes_def decode_def dec_be_def
        native_code_def)
  have r: "guessed_endian (native_view ?b1) = native_code"
    using guessed_endian_rules [of ?b1 ?b2] d by simp
  have e: "guessed_endian (native_view ?b1) = guessed_endian (native_view ?b2)"
    using guessed_endian_rules [of ?b1 ?b2] same by blast
  from r e show ?thesis by blast
qed


section \<open>Setting the data type\<close>

text \<open>
  C8. \<^verbatim>\<open>set_data_dtype\<close> on a header of 348 bytes either returns normally, and then the
  \<^verbatim>\<open>datatype\<close> field holds the code of the key, \<^verbatim>\<open>bitpix\<close> holds 8 times the item size of
  that code's representation, and no other byte, the byte order or the extra data has
  changed; or it raises, and then the header is the one it was given. The two writes
  follow each other with nothing in between that can fail.
\<close>

theorem set_data_dtype_atomic:
  assumes "length (binaryblock h) = 348"
  shows "case set_data_dtype k h of
      (None, h') \<Rightarrow>
        code_of_key k = Some (sint (fld_i2 (header_data h') ''datatype'' 0))
        \<and> map_option (\<lambda>dt. int (dt_itemsize dt) * 8)
             (dtype_of_code (sint (fld_i2 (header_data h') ''datatype'' 0)))
           = Some (sint (fld_i2 (header_data h') ''bitpix'' 0))
        \<and> take 70 (binaryblock h') = take 70 (binaryblock h)
        \<and> drop 74 (binaryblock h') = drop 74 (binaryblock h)
        \<and> length (binaryblock h') = 348
        \<and> endianness h' = endianness h
        \<and> extra_data h' = extra_data h
    | (Some e, h') \<Rightarrow> h' = h"
proof (cases "code_of_key k")
  case None
  then show ?thesis by (simp add: set_data_dtype_def)
next
  case (Some c)
  then obtain dt where dt: "dtype_of_code c = Some dt"
    using code_of_key_dtype by blast
  from dtype_of_code_bounds [OF dt] have b: "0 \<le> c" "c \<le> 255" "dt_itemsize dt \<le> 8"
    by simp_all
  have len: "length (buffer (header_data h)) = 348"
    using assms by (simp add: binaryblock_def)
  define cw :: "16 word" where "cw = word_of_int c"
  define bw :: "16 word" where "bw = word_of_int (int (dt_itemsize dt * 8))"
  have sc: "sint cw = c"
    unfolding cw_def by (rule sint_word_of_int16) (use b in simp_all)
  have sb: "sint bw = int (dt_itemsize dt) * 8"
    unfolding bw_def by (rule trans [OF sint_word_of_int16]) (use b in simp_all)
  show ?thesis
  proof (cases "dt_type dt = Void \<and> dt_fields dt = []")
    case True
    with Some dt show ?thesis by (simp add: set_data_dtype_def)
  next
    case False
    let ?d = "set_i2 ''bitpix'' 0 bw (set_i2 ''datatype'' 0 cw (header_data h))"
    have res: "set_data_dtype k h = (None, h\<lparr>header_data := ?d\<rparr>)"
      using False Some dt by (simp add: set_data_dtype_def cw_def bw_def)
    have f1: "sint (fld_i2 ?d ''datatype'' 0) = c"
      by (simp only: datatype_after_set [OF len] sc)
    have f2: "sint (fld_i2 ?d ''bitpix'' 0) = int (dt_itemsize dt) * 8"
      by (simp only: datatype_after_set [OF len] sb)
    have f3: "dt_order ?d = dt_order (header_data h)"
      by (simp only: buffer_set_i2)
    have tk: "take 70 (buffer ?d) = take 70 (buffer (header_data h))"
      using len by (simp add: set_i2_def offs put_bytes_def length_encode)
    have dr: "drop 74 (buffer ?d) = drop 74 (buffer (header_data h))"
      using len by (simp add: set_i2_def offs put_bytes_def length_encode)
    have ln: "length (buffer ?d) = 348"
      using len by (simp add: len348 offs)
    show ?thesis
      unfolding res
      by (simp add: f1 f2 f3 Some dt tk dr ln binaryblock_def endianness_def)
  qed
qed


theorem set_data_dtype_atomic_witness:
  "length (binaryblock (empty_header None :: int analyze_header)) = 348
   \<and> fst (set_data_dtype (KType (Scalar Int16)) (empty_header None :: int analyze_header)) = None
   \<and> sint (fld_i2 (header_data (snd (set_data_dtype (KType (Scalar Int16))
         (empty_header None :: int analyze_header)))) ''datatype'' 0) = 4
   \<and> sint (fld_i2 (header_data (snd (set_data_dtype (KType (Scalar Int16))
         (empty_header None :: int analyze_header)))) ''bitpix'' 0) = 16
   \<and> snd (set_data_dtype (KLabel ''implausible'') (empty_header None :: int analyze_header))
       = empty_header None"
proof -
  let ?h = "empty_header None :: int analyze_header"
  let ?k = "KType (Scalar Int16)"
  have l: "length (binaryblock ?h) = 348"
    by (simp add: binaryblock_def empty_header_def length_empty_headerdata)
  have ck: "code_of_key ?k = Some 4"
    by (simp add: code_of_key_def dtdefs_def RGB_def)
  have dk: "dtype_of_code 4 = Some (np_dtype (Scalar Int16))"
    by (simp add: dtype_of_code_def dtdefs_def)
  have r: "fst (set_data_dtype ?k ?h) = None"
    by (simp add: set_data_dtype_def ck dk)
  obtain h' where h': "set_data_dtype ?k ?h = (None, h')"
    using r by (cases "set_data_dtype ?k ?h") simp
  from set_data_dtype_atomic [OF l, of ?k] h'
  have a: "Some 4 = Some (sint (fld_i2 (header_data h') ''datatype'' 0))"
    and b: "map_option (\<lambda>dt. int (dt_itemsize dt) * 8)
             (dtype_of_code (sint (fld_i2 (header_data h') ''datatype'' 0)))
           = Some (sint (fld_i2 (header_data h') ''bitpix'' 0))"
    by (auto simp add: ck)
  from a have a': "sint (fld_i2 (header_data h') ''datatype'' 0) = 4" by simp
  from b have b': "sint (fld_i2 (header_data h') ''bitpix'' 0) = 16"
    by (simp add: a' dk)
  have ci: "code_of_key (KLabel ''implausible'') = None"
    by (simp add: code_of_key_def dtdefs_def)
  have f: "snd (set_data_dtype (KLabel ''implausible'') ?h) = ?h"
    using set_data_dtype_atomic [OF l, of "KLabel ''implausible''"]
    by (simp add: set_data_dtype_def ci)
  from l r a' b' f h' show ?thesis by simp
qed


text \<open>
  C4 (as amended). On a header of 348 bytes, setting a key of a supported representation
  returns normally and \<^verbatim>\<open>get_data_dtype\<close> then returns that representation in the header's
  byte order; for \<^verbatim>\<open>uint8\<close>, given as code, label or type, it is \<^verbatim>\<open>uint8\<close> itself. Setting
  code 0 raises \<^verbatim>\<open>HeaderDataError\<close> with the message
  \<^verbatim>\<open>data dtype "0" known but not supported\<close>, and setting a key that the registry does not
  hold raises \<^verbatim>\<open>HeaderDataError\<close> with the message \<^verbatim>\<open>data dtype "<key>" not recognized\<close>;
  both leave the header as it was.
\<close>

theorem set_get_data_dtype:
  assumes "length (binaryblock h) = 348"
  shows "(code_of_key k = Some c \<and> dtype_of_code c = Some dt
            \<and> \<not> (dt_type dt = Void \<and> dt_fields dt = [])
          \<longrightarrow> fst (set_data_dtype k h) = None
              \<and> get_data_dtype (snd (set_data_dtype k h))
                  = Inr (newbyteorder (endianness h) dt))
    \<and> (k \<in> {KCode 2, KLabel ''uint8'', KType (Scalar UInt8)}
          \<longrightarrow> fst (set_data_dtype k h) = None
              \<and> get_data_dtype (snd (set_data_dtype k h)) = Inr (np_dtype (Scalar UInt8)))
    \<and> set_data_dtype (KCode 0) h
         = (Some (Error HeaderDataError
              (''data dtype '' @ dq @ ''0'' @ dq @ '' known but not supported'')), h)
    \<and> (code_of_key k = None
          \<longrightarrow> set_data_dtype k h
               = (Some (Error HeaderDataError
                    (''data dtype '' @ dq @ key_str k @ dq @ '' not recognized'')), h))"
proof -
  have u: "k \<in> {KCode 2, KLabel ''uint8'', KType (Scalar UInt8)} \<Longrightarrow> code_of_key k = Some 2"
    by (auto simp add: code_of_key_def dtdefs_def RGB_def)
  have d2: "dtype_of_code 2 = Some (np_dtype (Scalar UInt8))"
    by (simp add: dtype_of_code_def dtdefs_def)
  have p2: "k \<in> {KCode 2, KLabel ''uint8'', KType (Scalar UInt8)}
          \<longrightarrow> fst (set_data_dtype k h) = None
              \<and> get_data_dtype (snd (set_data_dtype k h)) = Inr (np_dtype (Scalar UInt8))"
  proof
    assume m: "k \<in> {KCode 2, KLabel ''uint8'', KType (Scalar UInt8)}"
    have nv: "\<not> (dt_type (np_dtype (Scalar UInt8)) = Void
                \<and> dt_fields (np_dtype (Scalar UInt8)) = [])"
      by simp
    from get_data_dtype_after_set [OF assms u [OF m] d2 nv]
    show "fst (set_data_dtype k h) = None
              \<and> get_data_dtype (snd (set_data_dtype k h)) = Inr (np_dtype (Scalar UInt8))"
      unfolding newbyteorder_uint8 by blast
  qed
  have p3: "set_data_dtype (KCode 0) h
         = (Some (Error HeaderDataError
              (''data dtype '' @ dq @ ''0'' @ dq @ '' known but not supported'')), h)"
    by (simp add: set_data_dtype_def code_of_key_def dtype_of_code_def dtdefs_def show_int_def
        show_nat.simps [of 0])
  have p4: "code_of_key k = None
          \<longrightarrow> set_data_dtype k h
               = (Some (Error HeaderDataError
                    (''data dtype '' @ dq @ key_str k @ dq @ '' not recognized'')), h)"
    by (simp add: set_data_dtype_def)
  from get_data_dtype_after_set [OF assms] p2 p3 p4 show ?thesis by blast
qed


theorem set_get_data_dtype_witness:
  "length (binaryblock (empty_header (Some swapped_code) :: int analyze_header)) = 348
   \<and> get_data_dtype (snd (set_data_dtype (KType (Scalar UInt8))
         (empty_header (Some swapped_code) :: int analyze_header)))
       = Inr (np_dtype (Scalar UInt8))
   \<and> set_data_dtype (KLabel ''implausible'')
         (empty_header (Some swapped_code) :: int analyze_header)
       = (Some (Error HeaderDataError
            (''data dtype '' @ dq @ ''implausible'' @ dq @ '' not recognized'')),
          empty_header (Some swapped_code))"
proof -
  let ?h = "empty_header (Some swapped_code) :: int analyze_header"
  have l: "length (binaryblock ?h) = 348"
    by (simp add: binaryblock_def empty_header_def length_empty_headerdata)
  have ci: "code_of_key (KLabel ''implausible'') = None"
    by (simp add: code_of_key_def dtdefs_def)
  have a: "get_data_dtype (snd (set_data_dtype (KType (Scalar UInt8)) ?h))
       = Inr (np_dtype (Scalar UInt8))"
    using set_get_data_dtype [OF l, of "KType (Scalar UInt8)"] by blast
  have b: "set_data_dtype (KLabel ''implausible'') ?h
       = (Some (Error HeaderDataError
            (''data dtype '' @ dq @ ''implausible'' @ dq @ '' not recognized'')), ?h)"
    using set_get_data_dtype [OF l, of "KLabel ''implausible''"] ci by simp
  from l a b show ?thesis by blast
qed

text \<open>
  The claim as first stated has code 0 fail with an error of the \<^verbatim>\<open>HeaderTypeError\<close> class.
  The source raises \<^verbatim>\<open>HeaderDataError\<close> there, as its docstring shows, for the code and
  for the label \<^verbatim>\<open>none\<close> alike.
\<close>

theorem set_data_dtype_none_counterexample:
  "map_option kind (fst (set_data_dtype (KCode 0) (empty_header None :: int analyze_header)))
     = Some HeaderDataError
   \<and> map_option kind (fst (set_data_dtype (KCode 0) (empty_header None :: int analyze_header)))
     \<noteq> Some HeaderTypeError
   \<and> map_option kind (fst (set_data_dtype (KLabel ''none'') (empty_header None :: int analyze_header)))
     \<noteq> Some HeaderTypeError"
  by (simp add: set_data_dtype_def code_of_key_def dtype_of_code_def dtdefs_def)



section \<open>The data shape\<close>





section \<open>Repair and diagnosis\<close>

text \<open>
  C3. Take a header of 348 bytes with \<^verbatim>\<open>sizeof_hdr = 0\<close> and a negative value among
  \<^verbatim>\<open>pixdim[1..3]\<close>, and nothing else for the checks to report: a supported data type code
  with the matching \<^verbatim>\<open>bitpix\<close>, as in the default header. \<^verbatim>\<open>check_fix\<close> leaves
  \<^verbatim>\<open>sizeof_hdr = 348\<close> and the three spacings replaced by their absolute values, none of
  them negative; it raises nothing, whatever the policy; the battery's reports carry
  exactly two fix messages, those of the two repairs, and no severity. The battery's
  \<^verbatim>\<open>check_only\<close> on the same header returns it as it was and exactly two reports of
  nonzero severity, 30 for \<^verbatim>\<open>sizeof_hdr\<close> and 40 for the spacings, with no fix message.
\<close>

theorem check_fix_and_check_only:
  assumes len: "length (binaryblock h) = 348"
    and sz: "sint (fld_i4 (header_data h) ''sizeof_hdr'' 0) = 0"
    and neg: "list_ex (\<lambda>i. f32_lt0 (fld_f4 (header_data h) ''pixdim'' i)) [1, 2, 3]"
    and dt: "dtype_of_code (sint (fld_i2 (header_data h) ''datatype'' 0)) = Some dt"
    and sup: "dt_type dt \<noteq> Void"
    and bp: "int (dt_itemsize dt * 8) = sint (fld_i2 (header_data h) ''bitpix'' 0)"
  shows "sint (fld_i4 (header_data (snd (check_fix policy h))) ''sizeof_hdr'' 0) = 348
    \<and> map (fld_f4 (header_data (snd (check_fix policy h))) ''pixdim'') [1, 2, 3]
        = map (\<lambda>i. f32_abs (fld_f4 (header_data h) ''pixdim'' i)) [1, 2, 3]
    \<and> \<not> list_ex (\<lambda>i. f32_lt0 (fld_f4 (header_data (snd (check_fix policy h))) ''pixdim'' i))
          [1, 2, 3]
    \<and> fst (check_fix policy h) = None
    \<and> fst (battery_check_fix get_checks h) = snd (check_fix policy h)
    \<and> map fix_msg (snd (battery_check_fix get_checks h))
        = [''set sizeof_hdr to 348'', [], [], ''setting to abs of pixdim values'']
    \<and> map level (snd (battery_check_fix get_checks h)) = [0, 0, 0, 0]
    \<and> fst (battery_check_only get_checks h) = h
    \<and> map level (snd (battery_check_only get_checks h)) = [30, 40]
    \<and> map problem_msg (snd (battery_check_only get_checks h))
        = [''sizeof_hdr should be 348'', ''pixdim[1,2,3] should be positive'']
    \<and> map fix_msg (snd (battery_check_only get_checks h)) = [[], []]"
proof -
  let ?d = "header_data h"
  let ?d1 = "set_i4 ''sizeof_hdr'' 0 348 ?d"
  let ?h1 = "h\<lparr>header_data := ?d1\<rparr>"
  let ?d2 = "foldl (\<lambda>d' i. set_f4 ''pixdim'' i (f32_abs (fld_f4 ?d1 ''pixdim'' i)) d')
               ?d1 [1, 2, 3]"
  let ?h2 = "?h1\<lparr>header_data := ?d2\<rparr>"
  let ?R = "Report (Some HeaderDataError)"
  have l: "length (buffer ?d) = 348" using len by (simp add: binaryblock_def)
  note f1 = fields_after_sizeof [OF l, of 348]
  have l1: "length (buffer ?d1) = 348" by (rule f1(5))
  note f2 = pixdims_after_abs [OF l1]
  have neg1: "list_ex (\<lambda>i. f32_lt0 (fld_f4 ?d1 ''pixdim'' i)) [1, 2, 3]"
    using neg f1(4) by simp
  have c1: "chk_sizeof_hdr h True
      = (?h1, ?R\<lparr>problem_msg := ''sizeof_hdr should be 348'',
                   fix_msg := ''set sizeof_hdr to 348''\<rparr>)"
    using sz by (simp add: chk_sizeof_hdr_def Let_def)
  have c2: "chk_datatype ?h1 True = (?h1, ?R\<lparr>fix_problem_msg := ''not attempting fix''\<rparr>)"
    using dt sup by (simp add: chk_datatype_def Let_def f1(2))
  have c3: "chk_bitpix ?h1 True = (?h1, Report None)"
    using dt bp by (simp add: chk_bitpix_def Let_def f1(2) f1(3))
  have c4: "chk_pixdims ?h1 True
      = (?h2, ?R\<lparr>problem_msg := ''pixdim[1,2,3] should be positive'',
                   fix_msg := ''setting to abs of pixdim values''\<rparr>)"
    using neg1 by (simp add: chk_pixdims_def Let_def)
  have run: "battery_check_fix get_checks h
      = (?h2, [?R\<lparr>problem_msg := ''sizeof_hdr should be 348'',
                      fix_msg := ''set sizeof_hdr to 348''\<rparr>,
               ?R\<lparr>fix_problem_msg := ''not attempting fix''\<rparr>,
               Report None,
               ?R\<lparr>problem_msg := ''pixdim[1,2,3] should be positive'',
                   fix_msg := ''setting to abs of pixdim values''\<rparr>])"
    by (simp only: battery_check_fix_def get_checks_def run_checks.simps c1 c2 c3 c4
        prod.case)
  have cf: "check_fix policy h = (None, ?h2)"
    by (simp add: check_fix_def run Report_def)
  have a1: "sint (fld_i4 ?d2 ''sizeof_hdr'' 0) = 348"
    by (simp only: f2(2) f1(1)) simp
  have a2: "map (fld_f4 ?d2 ''pixdim'') [1, 2, 3]
        = map (\<lambda>i. f32_abs (fld_f4 ?d ''pixdim'' i)) [1, 2, 3]"
    using f2(1) f1(4) by simp
  have a3: "\<not> list_ex (\<lambda>i. f32_lt0 (fld_f4 ?d2 ''pixdim'' i)) [1, 2, 3]"
    using a2 by (simp add: f32_abs_not_lt0)
  have n1: "chk_sizeof_hdr h False
      = (h, ?R\<lparr>problem_msg := ''sizeof_hdr should be 348'', level := 30\<rparr>)"
    using sz by (simp add: chk_sizeof_hdr_def Let_def)
  have n2: "chk_datatype h False = (h, ?R)"
    using dt sup by (simp add: chk_datatype_def Let_def)
  have n3: "chk_bitpix h False = (h, Report None)"
    using dt bp by (simp add: chk_bitpix_def Let_def)
  have n4: "chk_pixdims h False
      = (h, ?R\<lparr>problem_msg := ''pixdim[1,2,3] should be positive'', level := 40\<rparr>)"
    using neg by (simp add: chk_pixdims_def Let_def)
  have only: "battery_check_only get_checks h
      = (h, [?R\<lparr>problem_msg := ''sizeof_hdr should be 348'', level := 30\<rparr>,
             ?R\<lparr>problem_msg := ''pixdim[1,2,3] should be positive'', level := 40\<rparr>])"
    by (simp add: battery_check_only_def get_checks_def n1 n2 n3 n4 Report_def)
  show ?thesis
    unfolding cf run only
    using a1 a2 a3 by (simp add: Report_def)
qed


theorem check_fix_and_check_only_witness:
  "sint (fld_i4 (header_data (snd (check_fix (\<lambda>r. Some (Error HeaderDataError (problem_msg r)))
       ((empty_header None :: int analyze_header)
          \<lparr>header_data := set_f4 ''pixdim'' 1 0xC0000000
             (set_i4 ''sizeof_hdr'' 0 0 (empty_headerdata None))\<rparr>)))) ''sizeof_hdr'' 0) = 348
   \<and> f32_val (fld_f4 (header_data (snd (check_fix (\<lambda>r. Some (Error HeaderDataError (problem_msg r)))
       ((empty_header None :: int analyze_header)
          \<lparr>header_data := set_f4 ''pixdim'' 1 0xC0000000
             (set_i4 ''sizeof_hdr'' 0 0 (empty_headerdata None))\<rparr>)))) ''pixdim'' 1) = Finite 2
   \<and> fst (check_fix (\<lambda>r. Some (Error HeaderDataError (problem_msg r)))
       ((empty_header None :: int analyze_header)
          \<lparr>header_data := set_f4 ''pixdim'' 1 0xC0000000
             (set_i4 ''sizeof_hdr'' 0 0 (empty_headerdata None))\<rparr>)) = None
   \<and> map level (snd (battery_check_only get_checks
       ((empty_header None :: int analyze_header)
          \<lparr>header_data := set_f4 ''pixdim'' 1 0xC0000000
             (set_i4 ''sizeof_hdr'' 0 0 (empty_headerdata None))\<rparr>))) = [30, 40]"
proof -
  let ?d0 = "empty_headerdata None"
  let ?d = "set_f4 ''pixdim'' 1 0xC0000000 (set_i4 ''sizeof_hdr'' 0 0 ?d0)"
  let ?h = "(empty_header None :: int analyze_header)\<lparr>header_data := ?d\<rparr>"
  let ?p = "\<lambda>r. Some (Error HeaderDataError (problem_msg r))"
  note l0 = length_empty_headerdata [of None]
  have len: "length (binaryblock ?h) = 348"
    by (simp add: binaryblock_def len348 l0 offs)
  have sz: "sint (fld_i4 (header_data ?h) ''sizeof_hdr'' 0) = 0"
    by (simp add: fld_set len348 l0 offs)
  have p1: "fld_f4 (header_data ?h) ''pixdim'' 1 = 0xC0000000"
    by (simp add: fld_set len348 l0 offs)
  have neg: "list_ex (\<lambda>i. f32_lt0 (fld_f4 (header_data ?h) ''pixdim'' i)) [1, 2, 3]"
    using p1 by (simp add: f32_lt0_def f32_val_examples)
  have c: "sint (fld_i2 (header_data ?h) ''datatype'' 0) = 16"
    by (simp add: fld_set len348 l0 offs empty_datatype)
  have dt: "dtype_of_code (sint (fld_i2 (header_data ?h) ''datatype'' 0))
      = Some (np_dtype (Scalar Float32))"
    unfolding c by (simp add: dtype_of_code_def dtdefs_def)
  have sup: "dt_type (np_dtype (Scalar Float32)) \<noteq> Void" by simp
  have bp: "int (dt_itemsize (np_dtype (Scalar Float32)) * 8)
      = sint (fld_i2 (header_data ?h) ''bitpix'' 0)"
    by (simp add: fld_set len348 l0 offs empty_bitpix)
  note t = check_fix_and_check_only [OF len sz neg dt sup bp, of ?p]
  from t have a: "sint (fld_i4 (header_data (snd (check_fix ?p ?h))) ''sizeof_hdr'' 0) = 348"
    by blast
  from t have "map (fld_f4 (header_data (snd (check_fix ?p ?h))) ''pixdim'') [1, 2, 3]
        = map (\<lambda>i. f32_abs (fld_f4 (header_data ?h) ''pixdim'' i)) [1, 2, 3]"
    by blast
  then have "fld_f4 (header_data (snd (check_fix ?p ?h))) ''pixdim'' 1
      = f32_abs (fld_f4 (header_data ?h) ''pixdim'' 1)"
    by simp
  then have b: "f32_val (fld_f4 (header_data (snd (check_fix ?p ?h))) ''pixdim'' 1) = Finite 2"
    unfolding p1 by (simp add: f32_abs_def f32_val_examples)
  from t have c: "fst (check_fix ?p ?h) = None" by blast
  from t have d: "map level (snd (battery_check_only get_checks ?h)) = [30, 40]" by blast
  from a b c d show ?thesis by blast
qed



section \<open>Round trips\<close>

text \<open>
  C1 (as amended). For every header H of 348 bytes whose extra data is empty:
  constructing a header from H's block under H's own byte order, with the checks
  disabled, returns H itself, and so does the construction with the checks enabled when
  no check has anything to report on H; and converting H to the opposite byte order
  returns a header of that order that is equal to H, from which the conversion back
  returns H.
\<close>

theorem round_trip:
  assumes len: "length (binaryblock H) = 348" and ex: "extra_data H = Map.empty"
  shows "AnalyzeHeader (Some (binaryblock H)) (Some (endianness H)) False None policy = Inr H
    \<and> header_eq H H
    \<and> (snd (battery_check_only get_checks H) = []
          \<longrightarrow> AnalyzeHeader (Some (binaryblock H)) (Some (endianness H)) True None policy = Inr H)
    \<and> (e \<noteq> endianness H
          \<longrightarrow> (case as_byteswapped e policy H of
                 Inl err \<Rightarrow> False
               | Inr H1 \<Rightarrow> endianness H1 = e \<and> header_eq H1 H
                            \<and> as_byteswapped (endianness H) policy H1 = Inr H))"
proof (intro conjI impI)
  have l: "length (buffer (header_data H)) = 348"
    using len by (simp add: binaryblock_def)
  show nc: "AnalyzeHeader (Some (binaryblock H)) (Some (endianness H)) False None policy = Inr H"
    using l ex by (simp add: init_nocheck binaryblock_def endianness_eq header_rebuild)
  show "header_eq H H"
    by (simp add: header_eq_def)
  show "AnalyzeHeader (Some (binaryblock H)) (Some (endianness H)) True None policy = Inr H"
    if "snd (battery_check_only get_checks H) = []"
  proof -
    have "AnalyzeHeader (Some (binaryblock H)) (Some (endianness H)) True None policy
        = (case check_fix policy H of (Some err, self1) \<Rightarrow> Inl err | (None, self1) \<Rightarrow> Inr self1)"
      by (simp only: binaryblock_def endianness_eq init_check [OF l] option.case
          header_rebuild [OF ex])
    then show ?thesis by (simp add: clean_check_fix [OF that])
  qed
  show "case as_byteswapped e policy H of
          Inl err \<Rightarrow> False
        | Inr H1 \<Rightarrow> endianness H1 = e \<and> header_eq H1 H
                     \<and> as_byteswapped (endianness H) policy H1 = Inr H"
    if ne: "e \<noteq> endianness H"
  proof -
    let ?H1 = "\<lparr>header_data = \<lparr>dt_order = e,
                  buffer = byteswap_fields header_dtype (buffer (header_data H))\<rparr>,
              extra_data = (Map.empty :: string \<rightharpoonup> 'a)\<rparr>"
    have s1: "as_byteswapped e policy H = Inr ?H1"
      by (rule as_byteswapped_other [OF len ne])
    have e1: "endianness ?H1 = e" by (simp add: endianness_eq)
    have l1: "length (binaryblock ?H1) = 348"
      by (simp add: binaryblock_def length_byteswap [OF l])
    have ne1: "endianness H \<noteq> endianness ?H1" using ne e1 by simp
    have eq1: "header_eq ?H1 H"
      using ne ex by (simp add: header_eq_def e1 binaryblock_def byteswap_def)
    have s2: "as_byteswapped (endianness H) policy ?H1 = Inr H"
      unfolding as_byteswapped_other [OF l1 ne1]
      using ex by (simp add: byteswap_invol [OF l] endianness_eq header_rebuild)
    show ?thesis
      unfolding s1 using e1 eq1 s2 by simp
  qed
qed


theorem round_trip_witness:
  "AnalyzeHeader (Some (binaryblock (empty_header None :: int analyze_header)))
      (Some (endianness (empty_header None :: int analyze_header))) True None
      (\<lambda>r. Some (Error HeaderDataError (problem_msg r)))
     = Inr (empty_header None :: int analyze_header)
   \<and> (case as_byteswapped swapped_code (\<lambda>r. Some (Error HeaderDataError (problem_msg r)))
            (empty_header None :: int analyze_header) of
         Inl err \<Rightarrow> False
       | Inr H1 \<Rightarrow> endianness H1 = swapped_code \<and> header_eq H1 (empty_header None)
           \<and> as_byteswapped native_code (\<lambda>r. Some (Error HeaderDataError (problem_msg r))) H1
               = Inr (empty_header None))"
proof -
  let ?H = "empty_header None :: int analyze_header"
  let ?p = "\<lambda>r. Some (Error HeaderDataError (problem_msg r))"
  have len: "length (binaryblock ?H) = 348"
    by (simp add: binaryblock_def empty_header_def length_empty_headerdata)
  have ex: "extra_data ?H = Map.empty" by (simp add: empty_header_def)
  have en: "endianness ?H = native_code"
    by (simp add: endianness_eq empty_header_def order_empty_headerdata)
  have ne: "swapped_code \<noteq> endianness ?H"
    by (simp add: en native_code_def swapped_code_def)
  note t = round_trip [OF len ex, of ?p swapped_code]
  from t empty_header_clean [of None]
  have a: "AnalyzeHeader (Some (binaryblock ?H)) (Some (endianness ?H)) True None ?p = Inr ?H"
    by blast
  from t ne have b: "case as_byteswapped swapped_code ?p ?H of
         Inl err \<Rightarrow> False
       | Inr H1 \<Rightarrow> endianness H1 = swapped_code \<and> header_eq H1 ?H
           \<and> as_byteswapped (endianness ?H) ?p H1 = Inr ?H"
    by blast
  show ?thesis
  proof (rule conjI)
    show "AnalyzeHeader (Some (binaryblock ?H)) (Some (endianness ?H)) True None ?p = Inr ?H"
      by (rule a)
    show "case as_byteswapped swapped_code ?p ?H of
         Inl err \<Rightarrow> False
       | Inr H1 \<Rightarrow> endianness H1 = swapped_code \<and> header_eq H1 ?H
           \<and> as_byteswapped native_code ?p H1 = Inr ?H"
      using b unfolding en by assumption
  qed
qed


text \<open>
  The claim as first stated is for every header. The binary block does not hold the extra
  data, and equality compares it: from the default header with one extra key, both the
  construction from its block and the conversion there and back return a header that is
  not equal to it.
\<close>

theorem round_trip_extra_data_counterexample:
  "(case AnalyzeHeader
           (Some (binaryblock ((empty_header None :: int analyze_header)
                    \<lparr>extra_data := [''funny key'' \<mapsto> 0]\<rparr>)))
           (Some (endianness ((empty_header None :: int analyze_header)
                    \<lparr>extra_data := [''funny key'' \<mapsto> 0]\<rparr>)))
           False None (\<lambda>r. Some (Error HeaderDataError (problem_msg r))) of
      Inl err \<Rightarrow> False
    | Inr H1 \<Rightarrow> \<not> header_eq H1 ((empty_header None :: int analyze_header)
                    \<lparr>extra_data := [''funny key'' \<mapsto> 0]\<rparr>))
   \<and> (case as_byteswapped swapped_code (\<lambda>r. Some (Error HeaderDataError (problem_msg r)))
           ((empty_header None :: int analyze_header)\<lparr>extra_data := [''funny key'' \<mapsto> 0]\<rparr>) of
      Inl err \<Rightarrow> False
    | Inr H1 \<Rightarrow>
        (case as_byteswapped native_code (\<lambda>r. Some (Error HeaderDataError (problem_msg r))) H1 of
           Inl err \<Rightarrow> False
         | Inr H2 \<Rightarrow> \<not> header_eq H2 ((empty_header None :: int analyze_header)
                    \<lparr>extra_data := [''funny key'' \<mapsto> 0]\<rparr>)))"
proof -
  let ?H = "(empty_header None :: int analyze_header)\<lparr>extra_data := [''funny key'' \<mapsto> 0]\<rparr>"
  let ?p = "\<lambda>r. Some (Error HeaderDataError (problem_msg r))"
  have l: "length (buffer (header_data ?H)) = 348"
    by (simp add: empty_header_def length_empty_headerdata)
  have len: "length (binaryblock ?H) = 348"
    using l by (simp add: binaryblock_def)
  have en: "endianness ?H = native_code"
    by (simp add: endianness_eq empty_header_def order_empty_headerdata)
  have ne: "swapped_code \<noteq> endianness ?H"
    by (simp add: en native_code_def swapped_code_def)
  have x: "\<not> header_eq \<lparr>header_data = d, extra_data = Map.empty\<rparr> ?H" for d
  proof
    assume "header_eq \<lparr>header_data = d, extra_data = Map.empty\<rparr> ?H"
    from header_eq_extra [OF this] have "Map.empty = [''funny key'' \<mapsto> (0::int)]" by simp
    then have "(Map.empty :: string \<rightharpoonup> int) ''funny key'' = [''funny key'' \<mapsto> (0::int)] ''funny key''"
      by (rule arg_cong)
    then show False by simp
  qed
  have a: "case AnalyzeHeader (Some (binaryblock ?H)) (Some (endianness ?H)) False None ?p of
      Inl err \<Rightarrow> False | Inr H1 \<Rightarrow> \<not> header_eq H1 ?H"
    unfolding init_nocheck [OF len] using x by simp
  let ?H1 = "\<lparr>header_data = \<lparr>dt_order = swapped_code,
                  buffer = byteswap_fields header_dtype (buffer (header_data ?H))\<rparr>,
              extra_data = (Map.empty :: string \<rightharpoonup> int)\<rparr>"
  have s1: "as_byteswapped swapped_code ?p ?H = Inr ?H1"
    by (rule as_byteswapped_other [OF len ne])
  have "length (byteswap_fields header_dtype (buffer (header_data ?H))) = 348"
    by (rule length_byteswap [OF l])
  then have l1: "length (binaryblock ?H1) = 348"
    by (simp add: binaryblock_def)
  have ne1: "native_code \<noteq> endianness ?H1"
    by (simp add: endianness_eq native_code_def swapped_code_def)
  have b: "case as_byteswapped native_code ?p ?H1 of
           Inl err \<Rightarrow> False | Inr H2 \<Rightarrow> \<not> header_eq H2 ?H"
    unfolding as_byteswapped_other [OF l1 ne1] using x by simp
  from a b show ?thesis unfolding s1 by simp
qed



section \<open>The extra data is not serialized\<close>

text \<open>
  C10. The binary block of a header does not depend on its extra data, and is the 348
  bytes of the layout. A header built from a byte block without an \<^verbatim>\<open>extra_data\<close> argument,
  with or without checks, has empty extra data, and so has every header returned by
  \<^verbatim>\<open>as_byteswapped\<close>; on a header of 348 bytes both return a header, so the extra entries
  of the source header are dropped by serialization and by byte-order conversion.
\<close>

theorem ancillary_not_serialized:
  "binaryblock ((h :: 'v analyze_header)\<lparr>extra_data := m\<rparr>) = binaryblock h
   \<and> length (binaryblock (empty_header e0 :: 'v analyze_header)) = 348
   \<and> (case AnalyzeHeader (Some bb) endi check None policy of
         Inl err \<Rightarrow> True
       | Inr h1 \<Rightarrow> extra_data (h1 :: 'v analyze_header) = Map.empty)
   \<and> (case as_byteswapped e policy h of
         Inl err \<Rightarrow> True
       | Inr h1 \<Rightarrow> extra_data h1 = Map.empty)
   \<and> (length (binaryblock h) = 348 \<longrightarrow>
        (case AnalyzeHeader (Some (binaryblock h)) (Some (endianness h)) False None policy of
           Inl err \<Rightarrow> False
         | Inr h1 \<Rightarrow> extra_data (h1 :: 'v analyze_header) = Map.empty
                      \<and> binaryblock h1 = binaryblock h)
        \<and> (case as_byteswapped e policy h of
             Inl err \<Rightarrow> False
           | Inr h1 \<Rightarrow> extra_data h1 = Map.empty \<and> endianness h1 = e))"
proof (intro conjI impI)
  show "binaryblock (h\<lparr>extra_data := m\<rparr>) = binaryblock h"
    by (simp add: binaryblock_def)
  show "length (binaryblock (empty_header e0 :: 'v analyze_header)) = 348"
    by (simp add: binaryblock_def empty_header_def length_empty_headerdata)
  have init: "case AnalyzeHeader (Some b) en c None policy of
         Inl err \<Rightarrow> True
       | Inr h1 \<Rightarrow> extra_data (h1 :: 'v analyze_header) = Map.empty" for b en c
    using init_extra [of b en c policy]
    by (cases "AnalyzeHeader (Some b) en c None policy :: error + 'v analyze_header") simp_all
  show "case AnalyzeHeader (Some bb) endi check None policy of
         Inl err \<Rightarrow> True
       | Inr h1 \<Rightarrow> extra_data (h1 :: 'v analyze_header) = Map.empty"
    by (rule init)
  show "case as_byteswapped e policy h of
         Inl err \<Rightarrow> True
       | Inr h1 \<Rightarrow> extra_data h1 = Map.empty"
  proof (cases "e = endianness h")
    case True
    then have eq: "as_byteswapped e policy h
        = AnalyzeHeader (Some (binaryblock h)) (Some (endianness h)) False None policy"
      by (simp add: as_byteswapped_def)
    show ?thesis unfolding eq by (rule init)
  next
    case False
    then have eq: "as_byteswapped e policy h
        = AnalyzeHeader (Some (buffer (byteswap (header_data h)))) (Some e) False None policy"
      by (simp add: as_byteswapped_def Let_def)
    show ?thesis unfolding eq by (rule init)
  qed
  show "case AnalyzeHeader (Some (binaryblock h)) (Some (endianness h)) False None policy of
           Inl err \<Rightarrow> False
         | Inr h1 \<Rightarrow> extra_data (h1 :: 'v analyze_header) = Map.empty
                      \<and> binaryblock h1 = binaryblock h"
    if "length (binaryblock h) = 348"
    unfolding init_nocheck [OF that] by (simp add: binaryblock_def)
  show "case as_byteswapped e policy h of
             Inl err \<Rightarrow> False
           | Inr h1 \<Rightarrow> extra_data h1 = Map.empty \<and> endianness h1 = e"
    if len: "length (binaryblock h) = 348"
  proof (cases "e = endianness h")
    case True
    show ?thesis
      unfolding as_byteswapped_same [OF len True]
      using True by (simp add: endianness_eq)
  next
    case False
    show ?thesis
      unfolding as_byteswapped_other [OF len False]
      by (simp add: endianness_eq)
  qed
qed

theorem ancillary_not_serialized_witness:
  "length (binaryblock ((empty_header None :: int analyze_header)
              \<lparr>extra_data := [''funny key'' \<mapsto> 0]\<rparr>)) = 348
   \<and> (case as_byteswapped swapped_code (\<lambda>r. Some (Error HeaderDataError (problem_msg r)))
            ((empty_header None :: int analyze_header)\<lparr>extra_data := [''funny key'' \<mapsto> 0]\<rparr>) of
         Inl err \<Rightarrow> False
       | Inr h1 \<Rightarrow> extra_data h1 = Map.empty \<and> endianness h1 = swapped_code)"
proof -
  let ?h = "(empty_header None :: int analyze_header)\<lparr>extra_data := [''funny key'' \<mapsto> 0]\<rparr>"
  have len: "length (binaryblock ?h) = 348"
    by (simp add: binaryblock_def empty_header_def length_empty_headerdata)
  from ancillary_not_serialized
    [where h = ?h and policy = "\<lambda>r. Some (Error HeaderDataError (problem_msg r))"
       and e = swapped_code] len
  show ?thesis by blast
qed


end
